theory Spec2Isabelle
  imports Complex_Main
begin

section \<open>JavaScript values\<close>

text \<open>
  The server (the second module of \<^verbatim>\<open>src/unnamed/part_000\<close>, the one that requires
  \<^verbatim>\<open>rss-parser\<close>) keeps everything it owns in two module-level objects, \<^verbatim>\<open>rawArticles\<close>
  and \<^verbatim>\<open>analysisCache\<close>. The embedding below passes them around as an explicit state
  record. Whatever the process reads from outside (the RSS parser, the language model,
  the clock) is an argument of the function that reads it.

  A value that came out of \<^verbatim>\<open>JSON.parse\<close>, or \<^verbatim>\<open>undefined\<close> for a property that is
  not there. A JSON number is modelled by the real number its double stands for
  (\<^verbatim>\<open>Infinity\<close>, which \<^verbatim>\<open>JSON.parse\<close> yields for a literal beyond the double range, is
  left out).
\<close>

datatype jsval =
    JUndefined
  | JNull
  | JBool bool
  | JNum real
  | JStr string
  | JArr "jsval list"
  | JObj "(string \<times> jsval) list"

text \<open>The result of the abstract operation ToNumber.\<close>

datatype jsnumber = NaN | Number real

text \<open>A thrown \<^verbatim>\<open>Error\<close> object with its message.\<close>

datatype js_error = Error string

text \<open>Running a step that may throw, then another on its result.\<close>

definition bind_err :: "js_error + 'a \<Rightarrow> ('a \<Rightarrow> js_error + 'b) \<Rightarrow> js_error + 'b" where
  "bind_err r f = (case r of Inl e \<Rightarrow> Inl e | Inr x \<Rightarrow> f x)"

text \<open>
  ToPrimitive on a parsed value. An object is asked for \<^verbatim>\<open>valueOf\<close> and \<^verbatim>\<open>toString\<close>: the
  inherited \<^verbatim>\<open>valueOf\<close> gives back the object, and an own property \<^verbatim>\<open>toString\<close> of a
  parsed object is never a function, so with such a property no method yields a
  primitive and a TypeError is thrown; without it the inherited \<^verbatim>\<open>toString\<close> answers
  \<^verbatim>\<open>[object Object]\<close>. An array is joined from the strings of its elements, and throws
  when one of them does.
\<close>

fun unconvertible :: "jsval \<Rightarrow> bool" where
  "unconvertible (JObj kvs) = (map_of kvs ''toString'' \<noteq> None)"
| "unconvertible (JArr xs) = (\<exists>x\<in>set xs. unconvertible x)"
| "unconvertible v = False"

definition NOT_PRIMITIVE :: js_error where
  "NOT_PRIMITIVE = Error ''Cannot convert object to primitive value''"

text \<open>
  ToNumber, as the relational operators and the subtraction apply it to an operand. On
  the primitive values it is fixed by the language, and the string of an object is no
  number. On strings and on arrays it goes through the numeric-literal grammar (and the
  string form of the elements); that part is the argument \<open>conv\<close>.
\<close>

fun ToNumber :: "(jsval \<Rightarrow> jsnumber) \<Rightarrow> jsval \<Rightarrow> js_error + jsnumber" where
  "ToNumber conv JUndefined = Inr NaN"
| "ToNumber conv JNull = Inr (Number 0)"
| "ToNumber conv (JBool b) = Inr (Number (if b then 1 else 0))"
| "ToNumber conv (JNum r) = Inr (Number r)"
| "ToNumber conv (JStr s) = Inr (conv (JStr s))"
| "ToNumber conv (JArr xs) =
     (if unconvertible (JArr xs) then Inl NOT_PRIMITIVE else Inr (conv (JArr xs)))"
| "ToNumber conv (JObj kvs) =
     (if unconvertible (JObj kvs) then Inl NOT_PRIMITIVE else Inr NaN)"

text \<open>The relational operators and the subtraction of numbers; every comparison with \<^verbatim>\<open>NaN\<close> is false.\<close>

fun js_lt :: "jsnumber \<Rightarrow> jsnumber \<Rightarrow> bool" where
  "js_lt (Number a) (Number b) = (a < b)"
| "js_lt _ _ = False"

fun js_le :: "jsnumber \<Rightarrow> jsnumber \<Rightarrow> bool" where
  "js_le (Number a) (Number b) = (a \<le> b)"
| "js_le _ _ = False"

definition js_gt :: "jsnumber \<Rightarrow> jsnumber \<Rightarrow> bool" where
  "js_gt a b = js_lt b a"

definition js_ge :: "jsnumber \<Rightarrow> jsnumber \<Rightarrow> bool" where
  "js_ge a b = js_le b a"

fun js_sub :: "jsnumber \<Rightarrow> jsnumber \<Rightarrow> jsnumber" where
  "js_sub (Number a) (Number b) = Number (a - b)"
| "js_sub _ _ = NaN"

text \<open>
  \<^verbatim>\<open>Array.prototype.sort(comparefn)\<close>. The sort is stable, and an element \<open>x\<close> that
  stood before \<open>y\<close> stays before it unless \<open>comparefn(x, y) > 0\<close>; a comparator result
  of \<^verbatim>\<open>NaN\<close> counts as \<open>0\<close>. For a consistent comparator the result is the one stable
  sorted arrangement, which insertion from the right computes.
\<close>

fun stays_before :: "jsnumber \<Rightarrow> bool" where
  "stays_before NaN = True"
| "stays_before (Number v) = (v \<le> 0)"

fun insert_cmp :: "('a \<Rightarrow> 'a \<Rightarrow> jsnumber) \<Rightarrow> 'a \<Rightarrow> 'a list \<Rightarrow> 'a list" where
  "insert_cmp comparefn x [] = [x]"
| "insert_cmp comparefn x (y # ys) =
     (if stays_before (comparefn x y) then x # y # ys else y # insert_cmp comparefn x ys)"

definition js_sort :: "('a \<Rightarrow> 'a \<Rightarrow> jsnumber) \<Rightarrow> 'a list \<Rightarrow> 'a list" where
  "js_sort comparefn xs = foldr (insert_cmp comparefn) xs []"

text \<open>
  The same sort for a comparator that may throw: the first call that throws ends the
  sort, and the sort throws what the call threw.
\<close>

fun insert_throwing ::
  "('a \<Rightarrow> 'a \<Rightarrow> js_error + jsnumber) \<Rightarrow> 'a \<Rightarrow> 'a list \<Rightarrow> js_error + 'a list" where
  "insert_throwing comparefn x [] = Inr [x]"
| "insert_throwing comparefn x (y # ys) =
     (case comparefn x y of
        Inl e \<Rightarrow> Inl e
      | Inr v \<Rightarrow>
          if stays_before v then Inr (x # y # ys)
          else (case insert_throwing comparefn x ys of
                  Inl e \<Rightarrow> Inl e
                | Inr r \<Rightarrow> Inr (y # r)))"

fun sort_throwing :: "('a \<Rightarrow> 'a \<Rightarrow> js_error + jsnumber) \<Rightarrow> 'a list \<Rightarrow> js_error + 'a list" where
  "sort_throwing comparefn [] = Inr []"
| "sort_throwing comparefn (x # xs) =
     (case sort_throwing comparefn xs of
        Inl e \<Rightarrow> Inl e
      | Inr r \<Rightarrow> insert_throwing comparefn x r)"

text \<open>
  \<^verbatim>\<open>Array.prototype.filter(predicate)\<close> for a predicate that may throw: the elements are
  tested in order, and the first test that throws ends the filter.
\<close>

fun filter_throwing :: "('a \<Rightarrow> js_error + bool) \<Rightarrow> 'a list \<Rightarrow> js_error + 'a list" where
  "filter_throwing predicate [] = Inr []"
| "filter_throwing predicate (x # xs) =
     (case predicate x of
        Inl e \<Rightarrow> Inl e
      | Inr b \<Rightarrow>
          (case filter_throwing predicate xs of
             Inl e \<Rightarrow> Inl e
           | Inr r \<Rightarrow> Inr (if b then x # r else r)))"

text \<open>
  \<^verbatim>\<open>new Map(entries)\<close> and \<^verbatim>\<open>map.values()\<close>: a key keeps the position of its first
  insertion and the value of its last.
\<close>

fun Map_set :: "('k \<times> 'v) list \<Rightarrow> 'k \<Rightarrow> 'v \<Rightarrow> ('k \<times> 'v) list" where
  "Map_set [] k v = [(k, v)]"
| "Map_set ((k', v') # m) k v =
     (if k' = k then (k', v) # m else (k', v') # Map_set m k v)"

definition new_Map :: "('k \<times> 'v) list \<Rightarrow> ('k \<times> 'v) list" where
  "new_Map entries = foldl (\<lambda>m (k, v). Map_set m k v) [] entries"

definition Map_values :: "('k \<times> 'v) list \<Rightarrow> 'v list" where
  "Map_values m = map snd m"

text \<open>Strings that may be \<^verbatim>\<open>undefined\<close> (\<open>None\<close>), their truthiness, and \<^verbatim>\<open>a || b\<close>.\<close>

definition truthy :: "string option \<Rightarrow> bool" where
  "truthy s = (case s of None \<Rightarrow> False | Some t \<Rightarrow> t \<noteq> [])"

definition js_or :: "string option \<Rightarrow> string option \<Rightarrow> string option" where
  "js_or a b = (if truthy a then a else b)"

text \<open>\<^verbatim>\<open>s.split(c)\<close> for a one-character separator, and indexing that may be out of range.\<close>

fun split_on :: "char \<Rightarrow> string \<Rightarrow> string list" where
  "split_on c [] = [[]]"
| "split_on c (x # xs) =
     (if x = c then [] # split_on c xs
      else (case split_on c xs of [] \<Rightarrow> [[x]] | p # ps \<Rightarrow> (x # p) # ps))"

definition index_opt :: "'a list \<Rightarrow> nat \<Rightarrow> 'a option" where
  "index_opt xs n = (if n < length xs then Some (xs ! n) else None)"

text \<open>
  \<^verbatim>\<open>String.prototype.toLowerCase\<close>, on a string given by its UTF-8 bytes. The ASCII
  letters are lowered, and so is the one character outside ASCII whose lower case is an
  ASCII letter: the Kelvin sign U+212A (bytes E2 84 AA) becomes \<open>k\<close>. Every other
  character is left as it is; JavaScript may turn it into other characters outside ASCII,
  which no comparison with an ASCII name can tell apart.
\<close>

definition lower_char :: "char \<Rightarrow> char" where
  "lower_char c =
     (case map_of (zip ''ABCDEFGHIJKLMNOPQRSTUVWXYZ'' ''abcdefghijklmnopqrstuvwxyz'') c of
        None \<Rightarrow> c
      | Some l \<Rightarrow> l)"

fun toLowerCase :: "string \<Rightarrow> string" where
  "toLowerCase [] = []"
| "toLowerCase (c # cs) =
     (if c = CHR 0xE2 \<and> take 2 cs = [CHR 0x84, CHR 0xAA]
      then CHR ''k'' # toLowerCase (drop 2 cs)
      else lower_char c # toLowerCase cs)"

section \<open>The data model\<close>

datatype category = Breaking | Technology | Business | Science | Health

text \<open>
  An article as \<^verbatim>\<open>fetchAllFeeds\<close> builds it. The timestamp is the string
  \<^verbatim>\<open>toISOString()\<close> gives for a valid date; the code reads it back only through
  \<^verbatim>\<open>new Date(...)\<close>, so it is kept as the number of milliseconds it stands for.
\<close>

record article =
  category :: category
  title :: "string option"
  content :: string
  url :: "string option"
  source :: "string option"
  timestamp :: int

text \<open>
  The object \<^verbatim>\<open>analyzeSentiment\<close> returns. The source names the last two fields
  \<^verbatim>\<open>positive\<close> and \<^verbatim>\<open>negative\<close>; they are prefixed here, as are the four fields copied
  from the article.
\<close>

record analyzedArticle =
  a_title :: "string option"
  a_url :: "string option"
  a_source :: "string option"
  a_timestamp :: int
  summary :: jsval
  overall_sentiment :: jsval
  sentiment_score :: jsval
  bias_level :: jsval
  manipulative_score :: jsval
  a_positive :: jsval
  a_negative :: jsval

record categoryState =
  articles :: "article list"
  isLoading :: bool
  lastError :: "string option"

record buckets =
  positive :: "analyzedArticle list"
  negative :: "analyzedArticle list"
  neutral :: "analyzedArticle list"

record analysis = buckets +
  suggestions :: "string list"

record summary_counts =
  total_articles :: nat
  analyzed_articles :: nat
  positive_count :: nat
  negative_count :: nat
  neutral_count :: nat

record analysis_data =
  d_category :: string
  d_summary :: summary_counts
  d_articles :: buckets
  reader_suggestions :: "string list"
  last_updated :: int

text \<open>\<^verbatim>\<open>analysisStartTime\<close>: not there at first, a time while analysing, \<^verbatim>\<open>null\<close> afterwards.\<close>

datatype start_time = StartUndefined | StartNull | StartAt int

record cacheEntry =
  cache_timestamp :: int
  data :: "analysis_data option"
  isAnalyzing :: bool
  analysisStartTime :: start_time

record state =
  rawArticles :: "category \<Rightarrow> categoryState"
  analysisCache :: "category \<Rightarrow> cacheEntry"

definition initial_state :: state where
  "initial_state =
     \<lparr> rawArticles = (\<lambda>c. \<lparr> articles = [], isLoading = False, lastError = None \<rparr>),
       analysisCache = (\<lambda>c. \<lparr> cache_timestamp = 0, data = None, isAnalyzing = False,
                                analysisStartTime = StartUndefined \<rparr>) \<rparr>"

text \<open>The keys of \<^verbatim>\<open>rawArticles\<close>, in the order of the object literal.\<close>

definition all_categories :: "category list" where
  "all_categories = [Breaking, Technology, Business, Science, Health]"

fun category_name :: "category \<Rightarrow> string" where
  "category_name Breaking = ''breaking''"
| "category_name Technology = ''technology''"
| "category_name Business = ''business''"
| "category_name Science = ''science''"
| "category_name Health = ''health''"

definition category_of_name :: "string \<Rightarrow> category option" where
  "category_of_name n = map_of (map (\<lambda>c. (category_name c, c)) all_categories) n"

definition CACHE_DURATION :: int where
  "CACHE_DURATION = 5 * 60 * 1000"

section \<open>The feed fetcher\<close>

record feed =
  feed_category :: category
  feed_url :: string

definition RSS_FEEDS :: "feed list" where
  "RSS_FEEDS =
     [ \<lparr> feed_category = Breaking,
         feed_url = ''https://timesofindia.indiatimes.com/rssfeedstopstories.cms'' \<rparr>,
       \<lparr> feed_category = Technology,
         feed_url = ''https://timesofindia.indiatimes.com/rssfeeds/66949542.cms'' \<rparr>,
       \<lparr> feed_category = Business,
         feed_url = ''https://economictimes.indiatimes.com/prime/technology-and-startups/rssfeeds/63319172.cms'' \<rparr>,
       \<lparr> feed_category = Science,
         feed_url = ''https://timesofindia.indiatimes.com/rssfeeds/-2128672765.cms'' \<rparr>,
       \<lparr> feed_category = Health,
         feed_url = ''https://www.thehindu.com/sci-tech/health/feeder/default.rss'' \<rparr>,
       \<lparr> feed_category = Breaking,
         feed_url = ''https://www.hindustantimes.com/feeds/rss/india/rssfeed.xml'' \<rparr> ]"

text \<open>What the RSS parser hands back: the fields of an item and of a feed that the code reads.\<close>

record item =
  item_title :: "string option"
  contentSnippet :: "string option"
  description :: "string option"
  content_encoded :: "string option"
  item_summary :: "string option"
  link :: "string option"
  pubDate :: "string option"
  isoDate :: "string option"

record feedData =
  feed_title :: "string option"
  items :: "item list"

text \<open>
  The outside world of one polling cycle: what \<^verbatim>\<open>parser.parseURL\<close> does on the given
  attempt at a url, what \<^verbatim>\<open>new Date(string)\<close> makes of a date string (\<open>None\<close> is an
  invalid date), and the clock read by \<^verbatim>\<open>new Date()\<close> for the item at the given index.
\<close>

record fetch_env =
  parseURL :: "string \<Rightarrow> nat \<Rightarrow> js_error + feedData"
  DateParse :: "string \<Rightarrow> int option"
  DateNow :: "string \<Rightarrow> nat \<Rightarrow> int"

text \<open>
  The loop of \<^verbatim>\<open>fetchWithRetry\<close>, from the given attempt on. The waiting between attempts
  is not modelled. Past the last attempt the function returns \<^verbatim>\<open>undefined\<close> (\<open>Inr None\<close>).
\<close>

function fetch_attempts :: "fetch_env \<Rightarrow> feed \<Rightarrow> nat \<Rightarrow> nat \<Rightarrow> js_error + feedData option" where
  "fetch_attempts env feed maxRetries attempt =
     (if attempt \<le> maxRetries then
        (case parseURL env (feed_url feed) attempt of
           Inr feedData \<Rightarrow> Inr (Some feedData)
         | Inl error \<Rightarrow>
             if attempt = maxRetries then Inl error
             else fetch_attempts env feed maxRetries (attempt + 1))
      else Inr None)"
  by pat_completeness auto
termination
  by (relation "measure (\<lambda>(env, feed, maxRetries, attempt). Suc maxRetries - attempt)") auto

definition fetchWithRetry :: "fetch_env \<Rightarrow> feed \<Rightarrow> js_error + feedData option" where
  "fetchWithRetry env feed = fetch_attempts env feed 3 1"

text \<open>
  \<^verbatim>\<open>new Date(item.pubDate || item.isoDate || new Date()).toISOString()\<close>: the
  conversion throws a RangeError on an invalid date.
\<close>

definition item_timestamp :: "fetch_env \<Rightarrow> feed \<Rightarrow> nat \<Rightarrow> item \<Rightarrow> js_error + int" where
  "item_timestamp env feed i it =
     (case js_or (pubDate it) (isoDate it) of
        None \<Rightarrow> Inr (DateNow env (feed_url feed) i)
      | Some d \<Rightarrow>
          if d = [] then Inr (DateNow env (feed_url feed) i)
          else (case DateParse env d of
                  None \<Rightarrow> Inl (Error ''Invalid time value'')
                | Some t \<Rightarrow> Inr t))"

definition item_content :: "item \<Rightarrow> string" where
  "item_content it =
     (case js_or (contentSnippet it) (js_or (description it)
             (js_or (content_encoded it) (js_or (item_summary it) (Some [])))) of
        None \<Rightarrow> []
      | Some s \<Rightarrow> s)"

definition to_article :: "fetch_env \<Rightarrow> feed \<Rightarrow> feedData \<Rightarrow> nat \<Rightarrow> item \<Rightarrow> js_error + article" where
  "to_article env feed fd i it =
     (case item_timestamp env feed i it of
        Inl e \<Rightarrow> Inl e
      | Inr t \<Rightarrow>
          Inr \<lparr> category = feed_category feed,
                title = item_title it,
                content = item_content it,
                url = link it,
                source = js_or (feed_title fd) (index_opt (split_on CHR ''/'' (feed_url feed)) 2),
                timestamp = t \<rparr>)"

text \<open>\<^verbatim>\<open>feedData.items.map(...)\<close>, from index \<open>i\<close> on; the first item that throws ends it.\<close>

fun map_items :: "fetch_env \<Rightarrow> feed \<Rightarrow> feedData \<Rightarrow> nat \<Rightarrow> item list \<Rightarrow> js_error + article list" where
  "map_items env feed fd i [] = Inr []"
| "map_items env feed fd i (it # its) =
     (case to_article env feed fd i it of
        Inl e \<Rightarrow> Inl e
      | Inr a \<Rightarrow>
          (case map_items env feed fd (Suc i) its of
             Inl e \<Rightarrow> Inl e
           | Inr as \<Rightarrow> Inr (a # as)))"

text \<open>The body of the \<^verbatim>\<open>try\<close> for one feed: fetch it, then build its articles.\<close>

definition process_feed :: "fetch_env \<Rightarrow> feed \<Rightarrow> js_error + article list" where
  "process_feed env feed =
     (case fetchWithRetry env feed of
        Inl e \<Rightarrow> Inl e
      | Inr None \<Rightarrow> Inl (Error ''Cannot read properties of undefined'')
      | Inr (Some fd) \<Rightarrow> map_items env feed fd 0 (items fd))"

text \<open>
  The inner loop over the feeds of one category, on the pair
  (\<^verbatim>\<open>categorySuccess\<close>, \<^verbatim>\<open>allArticles\<close>); a feed that throws changes neither.
\<close>

fun try_feeds :: "fetch_env \<Rightarrow> feed list \<Rightarrow> bool \<times> article list \<Rightarrow> bool \<times> article list" where
  "try_feeds env [] acc = acc"
| "try_feeds env (feed # feeds) (categorySuccess, allArticles) =
     (case process_feed env feed of
        Inr newArticles \<Rightarrow> try_feeds env feeds (True, allArticles @ newArticles)
      | Inl e \<Rightarrow> try_feeds env feeds (categorySuccess, allArticles))"

text \<open>\<^verbatim>\<open>(a, b) => new Date(b.timestamp) - new Date(a.timestamp)\<close>\<close>

definition by_timestamp_desc :: "article \<Rightarrow> article \<Rightarrow> jsnumber" where
  "by_timestamp_desc a b = js_sub (Number (of_int (timestamp b))) (Number (of_int (timestamp a)))"

definition uniqueArticles :: "article list \<Rightarrow> article list" where
  "uniqueArticles combinedArticles =
     Map_values (new_Map (map (\<lambda>a. (url a, a)) combinedArticles))"

definition FETCH_FAILED :: string where
  "FETCH_FAILED = ''Failed to fetch articles from any source for this category''"

text \<open>
  One round of the outer loop of \<^verbatim>\<open>fetchAllFeeds\<close>, on the entry
  \<^verbatim>\<open>rawArticles[category]\<close>: the flags are set, the feeds tried, and the entry updated.
\<close>

definition update_category :: "fetch_env \<Rightarrow> feed list \<Rightarrow> categoryState \<Rightarrow> categoryState" where
  "update_category env feeds raw =
     (let raw0 = raw \<lparr> isLoading := True, lastError := None \<rparr>;
          r = try_feeds env feeds (False, []);
          raw1 =
            (if fst r then
               raw0 \<lparr> articles :=
                        take 10 (js_sort by_timestamp_desc (uniqueArticles (articles raw0 @ snd r))),
                      lastError := None \<rparr>
             else raw0 \<lparr> lastError := Some FETCH_FAILED \<rparr>)
      in raw1 \<lparr> isLoading := False \<rparr>)"

definition fetch_category :: "fetch_env \<Rightarrow> category \<times> feed list \<Rightarrow> state \<Rightarrow> state" where
  "fetch_category env cf s =
     s \<lparr> rawArticles :=
           (rawArticles s) (fst cf := update_category env (snd cf) (rawArticles s (fst cf))) \<rparr>"

text \<open>
  \<^verbatim>\<open>RSS_FEEDS.reduce(...)\<close>: the feeds grouped by category, the categories in the order
  of their first feed (the order \<^verbatim>\<open>Object.entries\<close> walks them in).
\<close>

fun group_push :: "(category \<times> feed list) list \<Rightarrow> feed \<Rightarrow> (category \<times> feed list) list" where
  "group_push [] f = [(feed_category f, [f])]"
| "group_push ((c, fs) # acc) f =
     (if c = feed_category f then (c, fs @ [f]) # acc else (c, fs) # group_push acc f)"

definition feedsByCategory :: "feed list \<Rightarrow> (category \<times> feed list) list" where
  "feedsByCategory feeds = foldl group_push [] feeds"

definition fetchAllFeeds :: "fetch_env \<Rightarrow> state \<Rightarrow> state" where
  "fetchAllFeeds env s = foldl (\<lambda>s cf. fetch_category env cf s) s (feedsByCategory RSS_FEEDS)"

section \<open>The sentiment annotator\<close>

text \<open>
  What the \<^verbatim>\<open>try\<close> block of \<^verbatim>\<open>analyzeSentiment\<close> gets from outside, up to and including
  \<^verbatim>\<open>JSON.parse\<close>: the request fails, or the reply has no content that parses as JSON, or
  it parses to a value.
\<close>

datatype llm_outcome = RequestFails string | NotJSON string | Parsed jsval

text \<open>Reading a property: a TypeError on \<^verbatim>\<open>null\<close> and \<^verbatim>\<open>undefined\<close>, \<^verbatim>\<open>undefined\<close> where there is none.\<close>

fun getprop :: "jsval \<Rightarrow> string \<Rightarrow> js_error + jsval" where
  "getprop JUndefined k = Inl (Error ''Cannot read properties of undefined'')"
| "getprop JNull k = Inl (Error ''Cannot read properties of null'')"
| "getprop (JObj kvs) k = Inr (case map_of kvs k of None \<Rightarrow> JUndefined | Some v \<Rightarrow> v)"
| "getprop v k = Inr JUndefined"

definition annotate_try :: "(article \<Rightarrow> llm_outcome) \<Rightarrow> article \<Rightarrow> js_error + analyzedArticle" where
  "annotate_try llm a =
     (case llm a of
        RequestFails m \<Rightarrow> Inl (Error m)
      | NotJSON m \<Rightarrow> Inl (Error m)
      | Parsed analysis \<Rightarrow>
          bind_err (getprop analysis ''summary'') (\<lambda>v_summary.
          bind_err (getprop analysis ''sentiment'') (\<lambda>v_sentiment.
          bind_err (getprop analysis ''sentiment_score'') (\<lambda>v_score.
          bind_err (getprop analysis ''bias_level'') (\<lambda>v_bias_level.
          bind_err (getprop analysis ''manipulative_score'') (\<lambda>v_manipulative.
          bind_err (getprop analysis ''mood'') (\<lambda>v_mood.
          bind_err (getprop analysis ''bias'') (\<lambda>v_bias.
            Inr \<lparr> a_title = title a,
                  a_url = url a,
                  a_source = source a,
                  a_timestamp = timestamp a,
                  summary = v_summary,
                  overall_sentiment = v_sentiment,
                  sentiment_score = v_score,
                  bias_level = v_bias_level,
                  manipulative_score = v_manipulative,
                  a_positive = v_mood,
                  a_negative = v_bias \<rparr>))))))))"

text \<open>The object of the \<^verbatim>\<open>catch\<close> block. Its \<^verbatim>\<open>positive\<close> text is the five bytes the source file holds.\<close>

definition fallback :: "article \<Rightarrow> analyzedArticle" where
  "fallback a =
     \<lparr> a_title = title a,
       a_url = url a,
       a_source = source a,
       a_timestamp = timestamp a,
       summary = JStr ''Analysis temporarily unavailable'',
       overall_sentiment = JStr ''neutral'',
       sentiment_score = JNum 0,
       bias_level = JNum 0,
       manipulative_score = JNum 0,
       a_positive = JStr [CHR 0xC3, CHR 0xA2, CHR 0xE2, CHR 0x80, CHR 0x9C],
       a_negative = JStr ''Analysis temporarily unavailable'' \<rparr>"

definition analyzeSentiment :: "(article \<Rightarrow> llm_outcome) \<Rightarrow> article \<Rightarrow> js_error + analyzedArticle" where
  "analyzeSentiment llm a =
     (case annotate_try llm a of
        Inr r \<Rightarrow> Inr r
      | Inl error \<Rightarrow> Inr (fallback a))"

section \<open>The analysis of a category\<close>

text \<open>
  The loop of \<^verbatim>\<open>analyzeArticles\<close>: an annotation that returns is pushed, one that throws
  is skipped. No annotation has a \<^verbatim>\<open>recommendations\<close> property, so the set of
  suggestions stays empty.

  The filters compare ToNumber of the score with the double nearest to \<open>0.3\<close>. No double
  lies between that one and \<open>3 / 10\<close>, so on the reals that doubles stand for the
  comparisons are those with \<open>3 / 10\<close>.
\<close>

fun annotate_all :: "(article \<Rightarrow> llm_outcome) \<Rightarrow> article list \<Rightarrow> analyzedArticle list" where
  "annotate_all llm [] = []"
| "annotate_all llm (a # as) =
     (case analyzeSentiment llm a of
        Inr r \<Rightarrow> r # annotate_all llm as
      | Inl e \<Rightarrow> annotate_all llm as)"

text \<open>
  ToNumber of an article's score, as each comparison and subtraction computes it anew.
  The filters and the sorts stand outside every \<^verbatim>\<open>try\<close> of \<^verbatim>\<open>analyzeArticles\<close>: what
  they throw, the function throws.
\<close>

definition score :: "(jsval \<Rightarrow> jsnumber) \<Rightarrow> analyzedArticle \<Rightarrow> js_error + jsnumber" where
  "score conv a = ToNumber conv (sentiment_score a)"

text \<open>\<^verbatim>\<open>a => a.sentiment_score > 0.3\<close>\<close>

definition is_positive :: "(jsval \<Rightarrow> jsnumber) \<Rightarrow> analyzedArticle \<Rightarrow> js_error + bool" where
  "is_positive conv a = bind_err (score conv a) (\<lambda>n. Inr (js_gt n (Number (3 / 10))))"

text \<open>\<^verbatim>\<open>a => a.sentiment_score < -0.3\<close>\<close>

definition is_negative :: "(jsval \<Rightarrow> jsnumber) \<Rightarrow> analyzedArticle \<Rightarrow> js_error + bool" where
  "is_negative conv a = bind_err (score conv a) (\<lambda>n. Inr (js_lt n (Number (- (3 / 10)))))"

text \<open>\<^verbatim>\<open>a => a.sentiment_score >= -0.3 && a.sentiment_score <= 0.3\<close>\<close>

definition is_neutral :: "(jsval \<Rightarrow> jsnumber) \<Rightarrow> analyzedArticle \<Rightarrow> js_error + bool" where
  "is_neutral conv a =
     bind_err (score conv a) (\<lambda>n.
       if js_ge n (Number (- (3 / 10)))
       then bind_err (score conv a) (\<lambda>m. Inr (js_le m (Number (3 / 10))))
       else Inr False)"

text \<open>\<^verbatim>\<open>(a, b) => b.sentiment_score - a.sentiment_score\<close> and its mirror image.\<close>

definition by_score_desc ::
  "(jsval \<Rightarrow> jsnumber) \<Rightarrow> analyzedArticle \<Rightarrow> analyzedArticle \<Rightarrow> js_error + jsnumber" where
  "by_score_desc conv a b =
     bind_err (score conv b) (\<lambda>nb. bind_err (score conv a) (\<lambda>na. Inr (js_sub nb na)))"

definition by_score_asc ::
  "(jsval \<Rightarrow> jsnumber) \<Rightarrow> analyzedArticle \<Rightarrow> analyzedArticle \<Rightarrow> js_error + jsnumber" where
  "by_score_asc conv a b =
     bind_err (score conv a) (\<lambda>na. bind_err (score conv b) (\<lambda>nb. Inr (js_sub na nb)))"

definition partition_articles ::
  "(jsval \<Rightarrow> jsnumber) \<Rightarrow> analyzedArticle list \<Rightarrow> js_error + buckets" where
  "partition_articles conv analyzedArticles =
     bind_err (filter_throwing (is_positive conv) analyzedArticles) (\<lambda>ps.
     bind_err (sort_throwing (by_score_desc conv) ps) (\<lambda>sorted_ps.
     bind_err (filter_throwing (is_negative conv) analyzedArticles) (\<lambda>ns.
     bind_err (sort_throwing (by_score_asc conv) ns) (\<lambda>sorted_ns.
     bind_err (filter_throwing (is_neutral conv) analyzedArticles) (\<lambda>zs.
       Inr \<lparr> positive = take 5 sorted_ps,
             negative = take 5 sorted_ns,
             neutral = take 5 zs \<rparr>)))))"

definition analyzeArticles ::
  "(jsval \<Rightarrow> jsnumber) \<Rightarrow> (article \<Rightarrow> llm_outcome) \<Rightarrow> state \<Rightarrow> category \<Rightarrow> js_error + analysis" where
  "analyzeArticles conv llm s c =
     (let as = articles (rawArticles s c) in
      if as = [] then
        Inr \<lparr> positive = [], negative = [], neutral = [],
              suggestions = [''No articles available for analysis.''] \<rparr>
      else
        bind_err (partition_articles conv (annotate_all llm as)) (\<lambda>b.
          Inr (buckets.extend b \<lparr> suggestions = [] \<rparr>)))"

section \<open>The request handler\<close>

datatype cache_status = FromCache int int | JustAnalyzed

datatype body =
    CategoryNotFound "string list"
  | LoadingStatus string
  | FetchError string string
  | NoArticles string
  | AnalysisResult analysis_data cache_status
  | AnalyzingStatus string start_time
  | InternalError string string

record response =
  status :: nat
  body :: body

text \<open>The four readings of the clock in one run of the handler, in the order of the source.\<close>

record clock =
  now_check :: int
  now_start :: int
  now_store :: int
  now_updated :: int

text \<open>
  \<^verbatim>\<open>category in rawArticles\<close> also finds what the object inherits from
  \<^verbatim>\<open>Object.prototype\<close>; such a property is an object without \<^verbatim>\<open>isLoading\<close>,
  \<^verbatim>\<open>lastError\<close> or \<^verbatim>\<open>articles\<close>.
\<close>

definition Object_prototype_keys :: "string list" where
  "Object_prototype_keys =
     [''constructor'', ''__defineGetter__'', ''__defineSetter__'', ''hasOwnProperty'',
      ''__lookupGetter__'', ''__lookupSetter__'', ''isPrototypeOf'', ''propertyIsEnumerable'',
      ''toString'', ''valueOf'', ''__proto__'', ''toLocaleString'']"

datatype property = Own category | Inherited | Missing

definition rawArticles_property :: "string \<Rightarrow> property" where
  "rawArticles_property k =
     (case category_of_name k of
        Some c \<Rightarrow> Own c
      | None \<Rightarrow> if k \<in> set Object_prototype_keys then Inherited else Missing)"

definition make_data :: "string \<Rightarrow> nat \<Rightarrow> analysis \<Rightarrow> int \<Rightarrow> analysis_data" where
  "make_data name n an t =
     \<lparr> d_category = name,
       d_summary =
         \<lparr> total_articles = n,
           analyzed_articles = length (positive an) + length (negative an) + length (neutral an),
           positive_count = length (positive an),
           negative_count = length (negative an),
           neutral_count = length (neutral an) \<rparr>,
       d_articles = \<lparr> positive = positive an, negative = negative an, neutral = neutral an \<rparr>,
       reader_suggestions = suggestions an,
       last_updated = t \<rparr>"

text \<open>The assignment that raises the in-progress flag before the analysis starts.\<close>

definition mark_analyzing :: "clock \<Rightarrow> state \<Rightarrow> category \<Rightarrow> state" where
  "mark_analyzing clk s c =
     s \<lparr> analysisCache := (analysisCache s)
           (c := (analysisCache s c) \<lparr> isAnalyzing := True,
                                        analysisStartTime := StartAt (now_start clk) \<rparr>) \<rparr>"

text \<open>
  The end of the handler, reached when no fresh analysis is cached: an analysis in
  progress is reported; otherwise the flag is raised and the analysis step runs. The
  step is the argument \<open>analyze\<close>; \<open>Inl\<close> is an analysis that throws, which takes the
  handler into its \<^verbatim>\<open>catch\<close> block.
\<close>

definition run_analysis ::
  "(state \<Rightarrow> category \<Rightarrow> js_error + analysis) \<Rightarrow> clock \<Rightarrow> state \<Rightarrow> category \<Rightarrow> string
     \<Rightarrow> state \<times> response" where
  "run_analysis analyze clk s c name =
     (if isAnalyzing (analysisCache s c) then
        (s, \<lparr> status = 202,
              body = AnalyzingStatus name (analysisStartTime (analysisCache s c)) \<rparr>)
      else
        (let s1 = mark_analyzing clk s c
         in case analyze s1 c of
              Inr an \<Rightarrow>
                (let d = make_data name (length (articles (rawArticles s1 c))) an
                           (now_updated clk)
                 in (s1 \<lparr> analysisCache := (analysisCache s1)
                            (c := \<lparr> cache_timestamp = now_store clk, data = Some d,
                                    isAnalyzing = False, analysisStartTime = StartNull \<rparr>) \<rparr>,
                     \<lparr> status = 200, body = AnalysisResult d JustAnalyzed \<rparr>))
            | Inl (Error m) \<Rightarrow>
                (s1 \<lparr> analysisCache := (analysisCache s1)
                        (c := (analysisCache s1 c)
                                \<lparr> isAnalyzing := False, analysisStartTime := StartNull \<rparr>) \<rparr>,
                 \<lparr> status = 500, body = InternalError m name \<rparr>)))"

text \<open>
  The handler of \<^verbatim>\<open>GET /api/articles/:category\<close>, run on the state it finds once the
  initial load is over. A property that \<^verbatim>\<open>rawArticles\<close> only inherits has no
  \<^verbatim>\<open>isLoading\<close>, \<^verbatim>\<open>lastError\<close> or \<^verbatim>\<open>articles\<close>, so the first two tests fail and the
  test for missing articles succeeds.
\<close>

definition handler_core ::
  "(state \<Rightarrow> category \<Rightarrow> js_error + analysis) \<Rightarrow> clock \<Rightarrow> state \<Rightarrow> string \<Rightarrow> state \<times> response" where
  "handler_core analyze clk s param =
     (let name = toLowerCase param in
      case rawArticles_property name of
        Missing \<Rightarrow>
          (s, \<lparr> status = 404, body = CategoryNotFound (map category_name all_categories) \<rparr>)
      | Inherited \<Rightarrow> (s, \<lparr> status = 404, body = NoArticles name \<rparr>)
      | Own c \<Rightarrow>
          if isLoading (rawArticles s c) then
            (s, \<lparr> status = 202, body = LoadingStatus name \<rparr>)
          else if truthy (lastError (rawArticles s c)) then
            (s, \<lparr> status = 500,
                  body = FetchError (case lastError (rawArticles s c) of None \<Rightarrow> [] | Some m \<Rightarrow> m)
                           name \<rparr>)
          else if articles (rawArticles s c) = [] then
            (s, \<lparr> status = 404, body = NoArticles name \<rparr>)
          else
            (let cache = analysisCache s c;
                 cacheAge = now_check clk - cache_timestamp cache
             in case data cache of
                  None \<Rightarrow> run_analysis analyze clk s c name
                | Some d \<Rightarrow>
                    if cacheAge < CACHE_DURATION then
                      (s, \<lparr> status = 200,
                            body = AnalysisResult d
                                     (FromCache (cacheAge div 1000)
                                        ((CACHE_DURATION - cacheAge) div 1000)) \<rparr>)
                    else run_analysis analyze clk s c name))"

text \<open>The handler as the server runs it: the analysis step is \<^verbatim>\<open>analyzeArticles\<close>.\<close>

definition handler ::
  "(jsval \<Rightarrow> jsnumber) \<Rightarrow> (article \<Rightarrow> llm_outcome) \<Rightarrow> clock \<Rightarrow> state \<Rightarrow> string \<Rightarrow> state \<times> response" where
  "handler conv llm clk s param = handler_core (analyzeArticles conv llm) clk s param"

section \<open>Sample inputs\<close>

definition sample_article :: article where
  "sample_article =
     \<lparr> category = Technology, title = Some ''Chip sales rise'', content = ''Sales rose.'',
       url = Some ''https://example.org/chips'', source = Some ''Example News'',
       timestamp = 1700000000000 \<rparr>"

text \<open>A conversion for samples in which no score is a string or an array.\<close>

definition no_conversion :: "jsval \<Rightarrow> jsnumber" where
  "no_conversion v = NaN"

definition scored :: "string \<Rightarrow> jsval \<Rightarrow> analyzedArticle" where
  "scored u v = (fallback sample_article) \<lparr> a_url := Some u, sentiment_score := v \<rparr>"

definition sample_scored :: "analyzedArticle list" where
  "sample_scored =
     [scored ''a'' (JNum (1 / 2)), scored ''b'' (JNum (- (1 / 2))), scored ''c'' (JNum (1 / 10)),
      scored ''d'' (JNum (9 / 10)), scored ''e'' (JNum (3 / 10))]"

definition sample_state :: state where
  "sample_state =
     initial_state \<lparr> rawArticles := (rawArticles initial_state)
       (Technology := \<lparr> articles = [sample_article], isLoading = False, lastError = None \<rparr>) \<rparr>"

definition sample_llm :: "article \<Rightarrow> llm_outcome" where
  "sample_llm a =
     Parsed (JObj [(''summary'', JStr ''Chips are up.''), (''sentiment'', JStr ''positive''),
                   (''bias'', JStr ''none''), (''mood'', JStr ''up''),
                   (''sentiment_score'', JNum (4 / 5)), (''bias_level'', JNum 1),
                   (''manipulative_score'', JNum 0)])"

text \<open>A reply without a score, and a reply whose score is an object with a \<^verbatim>\<open>toString\<close> entry.\<close>

definition unscored_llm :: "article \<Rightarrow> llm_outcome" where
  "unscored_llm a =
     Parsed (JObj [(''summary'', JStr ''Chips are up.''), (''sentiment'', JStr ''positive'')])"

definition broken_llm :: "article \<Rightarrow> llm_outcome" where
  "broken_llm a =
     Parsed (JObj [(''summary'', JStr ''Chips are up.''), (''sentiment'', JStr ''positive''),
                   (''sentiment_score'', JObj [(''toString'', JNum 0)])])"

section \<open>The score read as a real number\<close>

text \<open>
  The words of the specification speak of scores as real numbers. \<open>score_number\<close> is what
  ToNumber makes of an article's score where it does not throw, \<open>numeric\<close> says that this
  is a number, and \<open>score_value\<close> is that number.
\<close>

definition score_number :: "(jsval \<Rightarrow> jsnumber) \<Rightarrow> analyzedArticle \<Rightarrow> jsnumber" where
  "score_number conv a = (case score conv a of Inl e \<Rightarrow> NaN | Inr n \<Rightarrow> n)"

definition numeric :: "(jsval \<Rightarrow> jsnumber) \<Rightarrow> analyzedArticle \<Rightarrow> bool" where
  "numeric conv a = (score_number conv a \<noteq> NaN)"

definition score_value :: "(jsval \<Rightarrow> jsnumber) \<Rightarrow> analyzedArticle \<Rightarrow> real" where
  "score_value conv a = (case score_number conv a of NaN \<Rightarrow> 0 | Number r \<Rightarrow> r)"

section \<open>Notions used to state the properties of a fetch cycle\<close>

text \<open>The sources configured for a category.\<close>

definition category_feeds :: "category \<Rightarrow> feed list" where
  "category_feeds c = filter (\<lambda>f. feed_category f = c) RSS_FEEDS"

text \<open>A source succeeds in a cycle when the \<^verbatim>\<open>try\<close> block for its feed does not throw.\<close>

definition feed_succeeds :: "fetch_env \<Rightarrow> feed \<Rightarrow> bool" where
  "feed_succeeds env f = (case process_feed env f of Inl e \<Rightarrow> False | Inr as \<Rightarrow> True)"

definition feed_articles :: "fetch_env \<Rightarrow> feed \<Rightarrow> article list" where
  "feed_articles env f = (case process_feed env f of Inl e \<Rightarrow> [] | Inr as \<Rightarrow> as)"

text \<open>The articles a cycle fetches for a list of sources, in the order they are seen.\<close>

definition newly_fetched :: "fetch_env \<Rightarrow> feed list \<Rightarrow> article list" where
  "newly_fetched env feeds = concat (map (feed_articles env) feeds)"

text \<open>The entry with the given url that was seen last in a list of articles.\<close>

definition most_recently_seen :: "string option \<Rightarrow> article list \<Rightarrow> article option" where
  "most_recently_seen u xs = find (\<lambda>b. url b = u) (rev xs)"

section \<open>States the server can be in\<close>

text \<open>
  The states reached from the initial one by polling cycles and requests, each run to its
  end before the next one starts.
\<close>

inductive reachable :: "state \<Rightarrow> bool" where
  reachable_initial: "reachable initial_state"
| reachable_fetch: "reachable s \<Longrightarrow> reachable (fetchAllFeeds env s)"
| reachable_request: "reachable s \<Longrightarrow> reachable (fst (handler conv llm clk s param))"

text \<open>The retention cap: at most ten articles per category, the newest first.\<close>

definition retention_inv :: "state \<Rightarrow> bool" where
  "retention_inv s =
     (\<forall>c. length (articles (rawArticles s c)) \<le> 10
          \<and> sorted_wrt (\<lambda>a b. timestamp b \<le> timestamp a) (articles (rawArticles s c)))"

section \<open>Two sample polling cycles\<close>

definition storm_item :: "string \<Rightarrow> item" where
  "storm_item d =
     \<lparr> item_title = Some ''Storm nears coast'', contentSnippet = Some ''A storm is near.'',
       description = None, content_encoded = None, item_summary = None,
       link = Some ''https://example.org/storm'', pubDate = Some d, isoDate = None \<rparr>"

definition sample_dates :: "string \<Rightarrow> int option" where
  "sample_dates d =
     map_of [(''Mon, 01 Jan 2024 10:00:00 GMT'', 1704103200000),
             (''Mon, 01 Jan 2024 09:00:00 GMT'', 1704099600000)] d"

text \<open>
  Only the first source of the category \<open>breaking\<close> answers; every attempt at any other
  source times out. In the second cycle the source gives the same link with an earlier
  publication date.
\<close>

definition top_stories :: "string \<Rightarrow> string \<Rightarrow> nat \<Rightarrow> js_error + feedData" where
  "top_stories d u k =
     (if u = ''https://timesofindia.indiatimes.com/rssfeedstopstories.cms''
      then Inr \<lparr> feed_title = Some ''Top Stories'', items = [storm_item d] \<rparr>
      else Inl (Error ''Request timed out''))"

definition first_cycle :: fetch_env where
  "first_cycle =
     \<lparr> parseURL = top_stories ''Mon, 01 Jan 2024 10:00:00 GMT'',
       DateParse = sample_dates, DateNow = (\<lambda>u i. 1704106800000) \<rparr>"

definition second_cycle :: fetch_env where
  "second_cycle =
     \<lparr> parseURL = top_stories ''Mon, 01 Jan 2024 09:00:00 GMT'',
       DateParse = sample_dates, DateNow = (\<lambda>u i. 1704107100000) \<rparr>"

definition storm_article :: "int \<Rightarrow> article" where
  "storm_article t =
     \<lparr> category = Breaking, title = Some ''Storm nears coast'', content = ''A storm is near.'',
       url = Some ''https://example.org/storm'', source = Some ''Top Stories'', timestamp = t \<rparr>"

text \<open>A cycle in which no source answers.\<close>

definition outage_cycle :: fetch_env where
  "outage_cycle =
     \<lparr> parseURL = (\<lambda>u k. Inl (Error ''Request timed out'')),
       DateParse = sample_dates, DateNow = (\<lambda>u i. 1704107400000) \<rparr>"

definition top_stories_feed :: feed where
  "top_stories_feed =
     \<lparr> feed_category = Breaking,
       feed_url = ''https://timesofindia.indiatimes.com/rssfeedstopstories.cms'' \<rparr>"

definition india_feed :: feed where
  "india_feed =
     \<lparr> feed_category = Breaking,
       feed_url = ''https://www.hindustantimes.com/feeds/rss/india/rssfeed.xml'' \<rparr>"

section \<open>Notions used to state the properties of a response\<close>

text \<open>The counts of a summary agree with the lists of articles next to it.\<close>

definition counts_ok :: "analysis_data \<Rightarrow> bool" where
  "counts_ok d =
     (positive_count (d_summary d) = length (positive (d_articles d))
      \<and> negative_count (d_summary d) = length (negative (d_articles d))
      \<and> neutral_count (d_summary d) = length (neutral (d_articles d))
      \<and> analyzed_articles (d_summary d) =
          length (positive (d_articles d)) + length (negative (d_articles d))
            + length (neutral (d_articles d)))"

definition cache_ok :: "state \<Rightarrow> bool" where
  "cache_ok s = (\<forall>c d. data (analysisCache s c) = Some d \<longrightarrow> counts_ok d)"

section \<open>Sample requests\<close>

definition sample_clock :: clock where
  "sample_clock =
     \<lparr> now_check = 1704110000000, now_start = 1704110000001,
       now_store = 1704110004000, now_updated = 1704110004000 \<rparr>"

text \<open>A request one minute after the analysis of \<open>sample_clock\<close> was stored.\<close>

definition later_clock :: clock where
  "later_clock =
     \<lparr> now_check = 1704110064000, now_start = 1704110064001,
       now_store = 1704110068000, now_updated = 1704110068000 \<rparr>"

text \<open>A cycle in which the one source of \<open>technology\<close> gives six undated items.\<close>

definition numbered_item :: "string \<Rightarrow> item" where
  "numbered_item k =
     \<lparr> item_title = Some (''Story '' @ k), contentSnippet = None, description = Some ''Text'',
       content_encoded = None, item_summary = None,
       link = Some (''https://example.org/'' @ k), pubDate = None, isoDate = None \<rparr>"

definition busy_cycle :: fetch_env where
  "busy_cycle =
     \<lparr> parseURL = (\<lambda>u k.
         if u = ''https://timesofindia.indiatimes.com/rssfeeds/66949542.cms''
         then Inr \<lparr> feed_title = None,
                    items = map numbered_item [''1'', ''2'', ''3'', ''4'', ''5'', ''6''] \<rparr>
         else Inl (Error ''Request timed out'')),
       DateParse = sample_dates,
       DateNow = (\<lambda>u i. 1704106800000 + int i) \<rparr>"

text \<open>A cycle in which that source gives these six items and six more.\<close>

definition crowded_cycle :: fetch_env where
  "crowded_cycle =
     \<lparr> parseURL = (\<lambda>u k.
         if u = ''https://timesofindia.indiatimes.com/rssfeeds/66949542.cms''
         then Inr \<lparr> feed_title = None,
                    items = map numbered_item [''1'', ''2'', ''3'', ''4'', ''5'', ''6'']
                              @ map numbered_item [''7'', ''8'', ''9'', ''10'', ''11'', ''12''] \<rparr>
         else Inl (Error ''Request timed out'')),
       DateParse = sample_dates,
       DateNow = (\<lambda>u i. 1704106800000 + int i) \<rparr>"

definition numbered_article :: "string \<Rightarrow> int \<Rightarrow> article" where
  "numbered_article k i =
     \<lparr> category = Technology, title = Some (''Story '' @ k), content = ''Text'',
       url = Some (''https://example.org/'' @ k), source = Some ''timesofindia.indiatimes.com'',
       timestamp = 1704106800000 + i \<rparr>"

text \<open>The state after every source failed in the cycle that followed \<open>first_cycle\<close>.\<close>

definition outage_state :: state where
  "outage_state = fetchAllFeeds outage_cycle (fetchAllFeeds first_cycle initial_state)"

text \<open>What the first request for \<open>technology\<close> stores in \<open>sample_state\<close>, and the state after it.\<close>

definition sample_annotated :: analyzedArticle where
  "sample_annotated =
     \<lparr> a_title = Some ''Chip sales rise'', a_url = Some ''https://example.org/chips'',
       a_source = Some ''Example News'', a_timestamp = 1700000000000,
       summary = JStr ''Chips are up.'', overall_sentiment = JStr ''positive'',
       sentiment_score = JNum (4 / 5), bias_level = JNum 1, manipulative_score = JNum 0,
       a_positive = JStr ''up'', a_negative = JStr ''none'' \<rparr>"

definition sample_data :: analysis_data where
  "sample_data =
     \<lparr> d_category = ''technology'',
       d_summary = \<lparr> total_articles = 1, analyzed_articles = 1, positive_count = 1,
                     negative_count = 0, neutral_count = 0 \<rparr>,
       d_articles = \<lparr> positive = [sample_annotated], negative = [], neutral = [] \<rparr>,
       reader_suggestions = [],
       last_updated = 1704110004000 \<rparr>"

definition sample_after :: state where
  "sample_after =
     sample_state \<lparr> analysisCache := (analysisCache sample_state)
       (Technology := \<lparr> cache_timestamp = 1704110004000, data = Some sample_data,
                        isAnalyzing = False, analysisStartTime = StartNull \<rparr>) \<rparr>"

text \<open>An analysis step that throws.\<close>

definition failing_analysis :: "state \<Rightarrow> category \<Rightarrow> js_error + analysis" where
  "failing_analysis s c = Inl (Error ''JavaScript heap out of memory'')"

section \<open>Properties of the feed fetcher and the request handler\<close>

subsection \<open>The annotator\<close>

lemma annotate_try_fails_iff:
  "(\<exists>e. annotate_try llm a = Inl e) \<longleftrightarrow>
     ((\<exists>m. llm a = RequestFails m \<or> llm a = NotJSON m)
       \<or> llm a = Parsed JNull \<or> llm a = Parsed JUndefined)"
proof (cases "llm a")
  case (Parsed v)
  then show ?thesis
    by (cases v) (simp_all add: annotate_try_def bind_err_def)
qed (simp_all add: annotate_try_def)

lemma annotate_try_keeps:
  "annotate_try llm a = Inr r \<Longrightarrow>
     a_title r = title a \<and> a_url r = url a \<and> a_source r = source a \<and> a_timestamp r = timestamp a"
  by (auto simp: annotate_try_def bind_err_def split: llm_outcome.splits sum.splits)

lemma annotate_try_object:
  "llm a = Parsed (JObj kvs) \<Longrightarrow>
     annotate_try llm a =
       Inr \<lparr> a_title = title a, a_url = url a, a_source = source a,
             a_timestamp = timestamp a,
             summary = (case map_of kvs ''summary'' of None \<Rightarrow> JUndefined | Some v \<Rightarrow> v),
             overall_sentiment =
               (case map_of kvs ''sentiment'' of None \<Rightarrow> JUndefined | Some v \<Rightarrow> v),
             sentiment_score =
               (case map_of kvs ''sentiment_score'' of None \<Rightarrow> JUndefined | Some v \<Rightarrow> v),
             bias_level =
               (case map_of kvs ''bias_level'' of None \<Rightarrow> JUndefined | Some v \<Rightarrow> v),
             manipulative_score =
               (case map_of kvs ''manipulative_score'' of None \<Rightarrow> JUndefined | Some v \<Rightarrow> v),
             a_positive = (case map_of kvs ''mood'' of None \<Rightarrow> JUndefined | Some v \<Rightarrow> v),
             a_negative = (case map_of kvs ''bias'' of None \<Rightarrow> JUndefined | Some v \<Rightarrow> v) \<rparr>"
  by (simp add: annotate_try_def bind_err_def)

lemma annotate_try_no_object:
  assumes "llm a = Parsed v"
    and "(\<exists>b. v = JBool b) \<or> (\<exists>r. v = JNum r) \<or> (\<exists>t. v = JStr t) \<or> (\<exists>xs. v = JArr xs)"
  shows "annotate_try llm a =
       Inr \<lparr> a_title = title a, a_url = url a, a_source = source a,
             a_timestamp = timestamp a,
             summary = JUndefined, overall_sentiment = JUndefined,
             sentiment_score = JUndefined, bias_level = JUndefined,
             manipulative_score = JUndefined,
             a_positive = JUndefined, a_negative = JUndefined \<rparr>"
  using assms by (auto simp: annotate_try_def bind_err_def)

text \<open>
  C3 (as amended). \<^verbatim>\<open>analyzeSentiment\<close> never throws: for every article and every outcome of
  the request it returns an object that carries the article's title, url, source and
  timestamp. Its \<^verbatim>\<open>try\<close> block throws exactly when the request fails, the reply is not
  JSON, or the reply parses to \<^verbatim>\<open>null\<close> (or \<^verbatim>\<open>undefined\<close>); then the result is the fallback
  object: neutral sentiment, the three scores \<open>0\<close>, and the placeholder texts. A reply that
  parses to any other JSON value is not checked against the schema: of an object the
  seven fields are copied as they are, a missing one as \<^verbatim>\<open>undefined\<close>; of a boolean, a
  number, a string or an array all seven are \<^verbatim>\<open>undefined\<close>.
\<close>

theorem analyzeSentiment_degrades:
  "(\<exists>r. analyzeSentiment llm a = Inr r \<and> a_title r = title a \<and> a_url r = url a
        \<and> a_source r = source a \<and> a_timestamp r = timestamp a)
   \<and> ((\<exists>e. annotate_try llm a = Inl e) \<longleftrightarrow>
        ((\<exists>m. llm a = RequestFails m \<or> llm a = NotJSON m)
          \<or> llm a = Parsed JNull \<or> llm a = Parsed JUndefined))
   \<and> ((\<exists>e. annotate_try llm a = Inl e) \<longrightarrow>
        analyzeSentiment llm a =
          Inr \<lparr> a_title = title a, a_url = url a, a_source = source a,
                a_timestamp = timestamp a,
                summary = JStr ''Analysis temporarily unavailable'',
                overall_sentiment = JStr ''neutral'',
                sentiment_score = JNum 0, bias_level = JNum 0, manipulative_score = JNum 0,
                a_positive = JStr [CHR 0xC3, CHR 0xA2, CHR 0xE2, CHR 0x80, CHR 0x9C],
                a_negative = JStr ''Analysis temporarily unavailable'' \<rparr>)
   \<and> (llm a = Parsed (JObj kvs) \<longrightarrow>
        analyzeSentiment llm a =
          Inr \<lparr> a_title = title a, a_url = url a, a_source = source a,
                a_timestamp = timestamp a,
                summary = (case map_of kvs ''summary'' of None \<Rightarrow> JUndefined | Some v \<Rightarrow> v),
                overall_sentiment =
                  (case map_of kvs ''sentiment'' of None \<Rightarrow> JUndefined | Some v \<Rightarrow> v),
                sentiment_score =
                  (case map_of kvs ''sentiment_score'' of None \<Rightarrow> JUndefined | Some v \<Rightarrow> v),
                bias_level =
                  (case map_of kvs ''bias_level'' of None \<Rightarrow> JUndefined | Some v \<Rightarrow> v),
                manipulative_score =
                  (case map_of kvs ''manipulative_score'' of
                     None \<Rightarrow> JUndefined | Some v \<Rightarrow> v),
                a_positive = (case map_of kvs ''mood'' of None \<Rightarrow> JUndefined | Some v \<Rightarrow> v),
                a_negative = (case map_of kvs ''bias'' of None \<Rightarrow> JUndefined | Some v \<Rightarrow> v) \<rparr>)
   \<and> (llm a = Parsed w
        \<and> ((\<exists>b. w = JBool b) \<or> (\<exists>r. w = JNum r) \<or> (\<exists>t. w = JStr t) \<or> (\<exists>xs. w = JArr xs)) \<longrightarrow>
        analyzeSentiment llm a =
          Inr \<lparr> a_title = title a, a_url = url a, a_source = source a,
                a_timestamp = timestamp a,
                summary = JUndefined, overall_sentiment = JUndefined,
                sentiment_score = JUndefined, bias_level = JUndefined,
                manipulative_score = JUndefined,
                a_positive = JUndefined, a_negative = JUndefined \<rparr>)"
proof (intro conjI)
  show "\<exists>r. analyzeSentiment llm a = Inr r \<and> a_title r = title a \<and> a_url r = url a
        \<and> a_source r = source a \<and> a_timestamp r = timestamp a"
  proof (cases "annotate_try llm a")
    case (Inl e)
    then show ?thesis by (simp add: analyzeSentiment_def fallback_def)
  next
    case (Inr r)
    with annotate_try_keeps [OF Inr] show ?thesis by (simp add: analyzeSentiment_def)
  qed
next
  show "(\<exists>e. annotate_try llm a = Inl e) \<longleftrightarrow>
        ((\<exists>m. llm a = RequestFails m \<or> llm a = NotJSON m)
          \<or> llm a = Parsed JNull \<or> llm a = Parsed JUndefined)"
    by (rule annotate_try_fails_iff)
next
  show "(\<exists>e. annotate_try llm a = Inl e) \<longrightarrow>
        analyzeSentiment llm a =
          Inr \<lparr> a_title = title a, a_url = url a, a_source = source a,
                a_timestamp = timestamp a,
                summary = JStr ''Analysis temporarily unavailable'',
                overall_sentiment = JStr ''neutral'',
                sentiment_score = JNum 0, bias_level = JNum 0, manipulative_score = JNum 0,
                a_positive = JStr [CHR 0xC3, CHR 0xA2, CHR 0xE2, CHR 0x80, CHR 0x9C],
                a_negative = JStr ''Analysis temporarily unavailable'' \<rparr>"
    by (auto simp: analyzeSentiment_def fallback_def)
next
  show "llm a = Parsed (JObj kvs) \<longrightarrow>
        analyzeSentiment llm a =
          Inr \<lparr> a_title = title a, a_url = url a, a_source = source a,
                a_timestamp = timestamp a,
                summary = (case map_of kvs ''summary'' of None \<Rightarrow> JUndefined | Some v \<Rightarrow> v),
                overall_sentiment =
                  (case map_of kvs ''sentiment'' of None \<Rightarrow> JUndefined | Some v \<Rightarrow> v),
                sentiment_score =
                  (case map_of kvs ''sentiment_score'' of None \<Rightarrow> JUndefined | Some v \<Rightarrow> v),
                bias_level =
                  (case map_of kvs ''bias_level'' of None \<Rightarrow> JUndefined | Some v \<Rightarrow> v),
                manipulative_score =
                  (case map_of kvs ''manipulative_score'' of
                     None \<Rightarrow> JUndefined | Some v \<Rightarrow> v),
                a_positive = (case map_of kvs ''mood'' of None \<Rightarrow> JUndefined | Some v \<Rightarrow> v),
                a_negative = (case map_of kvs ''bias'' of None \<Rightarrow> JUndefined | Some v \<Rightarrow> v) \<rparr>"
    using annotate_try_object [of llm a kvs] by (simp add: analyzeSentiment_def)
next
  show "llm a = Parsed w
        \<and> ((\<exists>b. w = JBool b) \<or> (\<exists>r. w = JNum r) \<or> (\<exists>t. w = JStr t) \<or> (\<exists>xs. w = JArr xs)) \<longrightarrow>
        analyzeSentiment llm a =
          Inr \<lparr> a_title = title a, a_url = url a, a_source = source a,
                a_timestamp = timestamp a,
                summary = JUndefined, overall_sentiment = JUndefined,
                sentiment_score = JUndefined, bias_level = JUndefined,
                manipulative_score = JUndefined,
                a_positive = JUndefined, a_negative = JUndefined \<rparr>"
    using annotate_try_no_object [of llm a w] by (simp add: analyzeSentiment_def)
qed

theorem analyzeSentiment_degrades_witness:
  "annotate_try (\<lambda>a. NotJSON ''Unexpected token'') sample_article = Inl (Error ''Unexpected token'')
   \<and> analyzeSentiment (\<lambda>a. NotJSON ''Unexpected token'') sample_article =
       Inr \<lparr> a_title = Some ''Chip sales rise'', a_url = Some ''https://example.org/chips'',
             a_source = Some ''Example News'', a_timestamp = 1700000000000,
             summary = JStr ''Analysis temporarily unavailable'',
             overall_sentiment = JStr ''neutral'',
             sentiment_score = JNum 0, bias_level = JNum 0, manipulative_score = JNum 0,
             a_positive = JStr [CHR 0xC3, CHR 0xA2, CHR 0xE2, CHR 0x80, CHR 0x9C],
             a_negative = JStr ''Analysis temporarily unavailable'' \<rparr>
   \<and> analyzeSentiment unscored_llm sample_article =
       Inr \<lparr> a_title = Some ''Chip sales rise'', a_url = Some ''https://example.org/chips'',
             a_source = Some ''Example News'', a_timestamp = 1700000000000,
             summary = JStr ''Chips are up.'', overall_sentiment = JStr ''positive'',
             sentiment_score = JUndefined, bias_level = JUndefined,
             manipulative_score = JUndefined,
             a_positive = JUndefined, a_negative = JUndefined \<rparr>
   \<and> analyzeSentiment (\<lambda>a. Parsed (JNum 7)) sample_article =
       Inr \<lparr> a_title = Some ''Chip sales rise'', a_url = Some ''https://example.org/chips'',
             a_source = Some ''Example News'', a_timestamp = 1700000000000,
             summary = JUndefined, overall_sentiment = JUndefined,
             sentiment_score = JUndefined, bias_level = JUndefined,
             manipulative_score = JUndefined,
             a_positive = JUndefined, a_negative = JUndefined \<rparr>"
proof -
  have f: "annotate_try (\<lambda>a. NotJSON ''Unexpected token'') sample_article
             = Inl (Error ''Unexpected token'')"
    by (simp add: annotate_try_def)
  from analyzeSentiment_degrades [of "\<lambda>a. NotJSON ''Unexpected token''" sample_article] f
  have 1: "analyzeSentiment (\<lambda>a. NotJSON ''Unexpected token'') sample_article =
       Inr \<lparr> a_title = Some ''Chip sales rise'', a_url = Some ''https://example.org/chips'',
             a_source = Some ''Example News'', a_timestamp = 1700000000000,
             summary = JStr ''Analysis temporarily unavailable'',
             overall_sentiment = JStr ''neutral'',
             sentiment_score = JNum 0, bias_level = JNum 0, manipulative_score = JNum 0,
             a_positive = JStr [CHR 0xC3, CHR 0xA2, CHR 0xE2, CHR 0x80, CHR 0x9C],
             a_negative = JStr ''Analysis temporarily unavailable'' \<rparr>"
    by (simp add: sample_article_def)
  have u: "unscored_llm sample_article =
     Parsed (JObj [(''summary'', JStr ''Chips are up.''), (''sentiment'', JStr ''positive'')])"
    by (simp add: unscored_llm_def)
  from analyzeSentiment_degrades
         [of unscored_llm sample_article
             "[(''summary'', JStr ''Chips are up.''), (''sentiment'', JStr ''positive'')]"] u
  have 2: "analyzeSentiment unscored_llm sample_article =
       Inr \<lparr> a_title = Some ''Chip sales rise'', a_url = Some ''https://example.org/chips'',
             a_source = Some ''Example News'', a_timestamp = 1700000000000,
             summary = JStr ''Chips are up.'', overall_sentiment = JStr ''positive'',
             sentiment_score = JUndefined, bias_level = JUndefined,
             manipulative_score = JUndefined,
             a_positive = JUndefined, a_negative = JUndefined \<rparr>"
    by (simp add: sample_article_def)
  from analyzeSentiment_degrades [of "\<lambda>a. Parsed (JNum 7)" sample_article _ "JNum 7"]
  have 3: "analyzeSentiment (\<lambda>a. Parsed (JNum 7)) sample_article =
       Inr \<lparr> a_title = Some ''Chip sales rise'', a_url = Some ''https://example.org/chips'',
             a_source = Some ''Example News'', a_timestamp = 1700000000000,
             summary = JUndefined, overall_sentiment = JUndefined,
             sentiment_score = JUndefined, bias_level = JUndefined,
             manipulative_score = JUndefined,
             a_positive = JUndefined, a_negative = JUndefined \<rparr>"
    by (simp add: sample_article_def)
  from f 1 2 3 show ?thesis by blast
qed

text \<open>
  C3 as stated fails for a reply that is JSON but not of the schema: a score that is a
  string and four missing fields. The result is not the fallback object; the fields are
  copied as they are.
\<close>

theorem schema_violation_counterexample:
  "analyzeSentiment
     (\<lambda>a. Parsed (JObj [(''summary'', JStr ''Chips are up.''), (''sentiment'', JStr ''positive''),
                          (''sentiment_score'', JStr ''high'')]))
     sample_article =
   Inr \<lparr> a_title = Some ''Chip sales rise'', a_url = Some ''https://example.org/chips'',
         a_source = Some ''Example News'', a_timestamp = 1700000000000,
         summary = JStr ''Chips are up.'',
         overall_sentiment = JStr ''positive'',
         sentiment_score = JStr ''high'', bias_level = JUndefined,
         manipulative_score = JUndefined,
         a_positive = JUndefined, a_negative = JUndefined \<rparr>"
  by (simp add: analyzeSentiment_def annotate_try_def bind_err_def sample_article_def)

subsection \<open>Sorting with a comparator\<close>

lemma insert_cmp_insort_key:
  "(\<And>y. y \<in> set ys \<Longrightarrow> stays_before (c x y) = (k x \<le> k y)) \<Longrightarrow>
     insert_cmp c x ys = insort_key k x ys"
  by (induction ys) simp_all

text \<open>A comparator that orders by a key sorts as the library's stable sort by that key does.\<close>

lemma js_sort_sort_key:
  "(\<And>x y. x \<in> set xs \<Longrightarrow> y \<in> set xs \<Longrightarrow> stays_before (c x y) = (k x \<le> k y)) \<Longrightarrow>
     js_sort c xs = sort_key k xs"
proof (induction xs)
  case Nil
  show ?case by (simp add: js_sort_def)
next
  case (Cons x xs)
  have ih: "js_sort c xs = sort_key k xs"
    using Cons by simp
  have "insert_cmp c x (sort_key k xs) = insort_key k x (sort_key k xs)"
    by (rule insert_cmp_insort_key) (simp add: Cons.prems)
  with ih show ?case
    by (simp add: js_sort_def)
qed

lemma sorted_wrt_sort_key: "sorted_wrt (\<lambda>a b. k a \<le> k b) (sort_key k xs)"
  using sorted_sort_key [of k xs] by (simp add: sorted_map)

subsection \<open>Filters and sorts that may throw\<close>

lemma filter_throwing_ok:
  "(\<And>x. x \<in> set xs \<Longrightarrow> p x = Inr (q x)) \<Longrightarrow> filter_throwing p xs = Inr (filter q xs)"
  by (induction xs) simp_all

lemma filter_throwing_fails:
  assumes "\<And>x. x \<in> set xs \<Longrightarrow> p x = Inl e \<or> (\<exists>b. p x = Inr b)"
    and "\<exists>x\<in>set xs. p x = Inl e"
  shows "filter_throwing p xs = Inl e"
  using assms
proof (induction xs)
  case Nil
  then show ?case by simp
next
  case (Cons x xs)
  show ?case
  proof (cases "p x")
    case (Inl e')
    with Cons.prems(1) [of x] show ?thesis by simp
  next
    case (Inr b)
    with Cons.prems(2) have "\<exists>y\<in>set xs. p y = Inl e" by auto
    with Cons.IH Cons.prems(1) have "filter_throwing p xs = Inl e" by simp
    with Inr show ?thesis by simp
  qed
qed

lemma set_insert_cmp: "set (insert_cmp c x ys) = insert x (set ys)"
  by (induction ys) auto

lemma set_js_sort: "set (js_sort c xs) = set xs"
  by (induction xs) (simp_all add: js_sort_def set_insert_cmp)

lemma insert_throwing_ok:
  "(\<And>y. y \<in> set ys \<Longrightarrow> c x y = Inr (c' x y)) \<Longrightarrow>
     insert_throwing c x ys = Inr (insert_cmp c' x ys)"
  by (induction ys) simp_all

text \<open>Where no call of the comparator throws, the sort is the sort with the results of the calls.\<close>

lemma sort_throwing_ok:
  "(\<And>x y. x \<in> set xs \<Longrightarrow> y \<in> set xs \<Longrightarrow> c x y = Inr (c' x y)) \<Longrightarrow>
     sort_throwing c xs = Inr (js_sort c' xs)"
proof (induction xs)
  case Nil
  show ?case by (simp add: js_sort_def)
next
  case (Cons x xs)
  have ih: "sort_throwing c xs = Inr (js_sort c' xs)"
    using Cons by simp
  have "insert_throwing c x (js_sort c' xs) = Inr (insert_cmp c' x (js_sort c' xs))"
    by (rule insert_throwing_ok) (simp add: Cons.prems set_js_sort)
  with ih show ?case
    by (simp add: js_sort_def)
qed

subsection \<open>The reading of a score\<close>

lemma ToNumber_unconvertible: "unconvertible v \<Longrightarrow> ToNumber conv v = Inl NOT_PRIMITIVE"
  by (cases v) auto

lemma ToNumber_convertible: "\<not> unconvertible v \<Longrightarrow> \<exists>n. ToNumber conv v = Inr n"
  by (cases v) auto

lemma score_convertible:
  "\<not> unconvertible (sentiment_score a) \<Longrightarrow> score conv a = Inr (score_number conv a)"
  using ToNumber_convertible [of "sentiment_score a" conv]
  by (auto simp: score_def score_number_def)

lemma score_unconvertible:
  "unconvertible (sentiment_score a) \<Longrightarrow> score conv a = Inl NOT_PRIMITIVE"
  by (simp add: score_def ToNumber_unconvertible)

lemma unconvertible_not_numeric: "unconvertible (sentiment_score a) \<Longrightarrow> \<not> numeric conv a"
  by (simp add: numeric_def score_number_def score_unconvertible)

lemma is_positive_convertible:
  "\<not> unconvertible (sentiment_score a) \<Longrightarrow>
     is_positive conv a = Inr (numeric conv a \<and> 3 / 10 < score_value conv a)"
  by (cases "score_number conv a")
     (simp_all add: is_positive_def score_convertible bind_err_def js_gt_def numeric_def
        score_value_def)

lemma is_negative_convertible:
  "\<not> unconvertible (sentiment_score a) \<Longrightarrow>
     is_negative conv a = Inr (numeric conv a \<and> score_value conv a < - (3 / 10))"
  by (cases "score_number conv a")
     (simp_all add: is_negative_def score_convertible bind_err_def numeric_def score_value_def)

lemma is_neutral_convertible:
  "\<not> unconvertible (sentiment_score a) \<Longrightarrow>
     is_neutral conv a =
       Inr (numeric conv a \<and> - (3 / 10) \<le> score_value conv a \<and> score_value conv a \<le> 3 / 10)"
  by (cases "score_number conv a")
     (simp_all add: is_neutral_def score_convertible bind_err_def js_ge_def numeric_def
        score_value_def)

lemma is_positive_unconvertible:
  "unconvertible (sentiment_score a) \<Longrightarrow> is_positive conv a = Inl NOT_PRIMITIVE"
  by (simp add: is_positive_def score_unconvertible bind_err_def)

lemma is_positive_cases:
  "is_positive conv a = Inl NOT_PRIMITIVE \<or> (\<exists>b. is_positive conv a = Inr b)"
proof (cases "unconvertible (sentiment_score a)")
  case True
  then show ?thesis by (simp add: is_positive_unconvertible)
next
  case False
  then show ?thesis by (simp add: is_positive_convertible)
qed

lemma by_score_desc_convertible:
  "\<not> unconvertible (sentiment_score a) \<Longrightarrow> \<not> unconvertible (sentiment_score b) \<Longrightarrow>
     by_score_desc conv a b = Inr (js_sub (score_number conv b) (score_number conv a))"
  by (simp add: by_score_desc_def score_convertible bind_err_def)

lemma by_score_asc_convertible:
  "\<not> unconvertible (sentiment_score a) \<Longrightarrow> \<not> unconvertible (sentiment_score b) \<Longrightarrow>
     by_score_asc conv a b = Inr (js_sub (score_number conv a) (score_number conv b))"
  by (simp add: by_score_asc_def score_convertible bind_err_def)

lemma sort_desc_scores:
  assumes "\<And>a. a \<in> set xs \<Longrightarrow> numeric conv a"
  shows "js_sort (\<lambda>a b. js_sub (score_number conv b) (score_number conv a)) xs
           = sort_key (\<lambda>a. - score_value conv a) xs"
proof (rule js_sort_sort_key)
  fix x y assume "x \<in> set xs" "y \<in> set xs"
  then have "numeric conv x" "numeric conv y" using assms by auto
  then show "stays_before (js_sub (score_number conv y) (score_number conv x))
               = (- score_value conv x \<le> - score_value conv y)"
    by (cases "score_number conv x"; cases "score_number conv y")
       (simp_all add: numeric_def score_value_def)
qed

lemma sort_asc_scores:
  assumes "\<And>a. a \<in> set xs \<Longrightarrow> numeric conv a"
  shows "js_sort (\<lambda>a b. js_sub (score_number conv a) (score_number conv b)) xs
           = sort_key (score_value conv) xs"
proof (rule js_sort_sort_key)
  fix x y assume "x \<in> set xs" "y \<in> set xs"
  then have "numeric conv x" "numeric conv y" using assms by auto
  then show "stays_before (js_sub (score_number conv x) (score_number conv y))
               = (score_value conv x \<le> score_value conv y)"
    by (cases "score_number conv x"; cases "score_number conv y")
       (simp_all add: numeric_def score_value_def)
qed

subsection \<open>The three buckets\<close>

text \<open>One score that cannot be made a primitive, and the first filter throws.\<close>

lemma partition_throws:
  assumes "\<exists>a\<in>set xs. unconvertible (sentiment_score a)"
  shows "partition_articles conv xs = Inl NOT_PRIMITIVE"
proof -
  from assms have "\<exists>a\<in>set xs. is_positive conv a = Inl NOT_PRIMITIVE"
    using is_positive_unconvertible by blast
  then have "filter_throwing (is_positive conv) xs = Inl NOT_PRIMITIVE"
    by (intro filter_throwing_fails is_positive_cases)
  then show ?thesis
    by (simp add: partition_articles_def bind_err_def)
qed

lemma partition_returns:
  assumes "\<forall>a\<in>set xs. \<not> unconvertible (sentiment_score a)"
  shows "partition_articles conv xs =
     Inr \<lparr> positive =
             take 5 (sort_key (\<lambda>a. - score_value conv a)
                       (filter (\<lambda>a. numeric conv a \<and> 3 / 10 < score_value conv a) xs)),
           negative =
             take 5 (sort_key (score_value conv)
                       (filter (\<lambda>a. numeric conv a \<and> score_value conv a < - (3 / 10)) xs)),
           neutral =
             take 5 (filter (\<lambda>a. numeric conv a \<and> - (3 / 10) \<le> score_value conv a
                                  \<and> score_value conv a \<le> 3 / 10) xs) \<rparr>"
proof -
  define ps where "ps = filter (\<lambda>a. numeric conv a \<and> 3 / 10 < score_value conv a) xs"
  define ns where "ns = filter (\<lambda>a. numeric conv a \<and> score_value conv a < - (3 / 10)) xs"
  have fp: "filter_throwing (is_positive conv) xs = Inr ps"
    unfolding ps_def using assms by (intro filter_throwing_ok is_positive_convertible) simp
  have fn: "filter_throwing (is_negative conv) xs = Inr ns"
    unfolding ns_def using assms by (intro filter_throwing_ok is_negative_convertible) simp
  have fz: "filter_throwing (is_neutral conv) xs =
      Inr (filter (\<lambda>a. numeric conv a \<and> - (3 / 10) \<le> score_value conv a
                        \<and> score_value conv a \<le> 3 / 10) xs)"
    using assms by (intro filter_throwing_ok is_neutral_convertible) simp
  have "sort_throwing (by_score_desc conv) ps
          = Inr (js_sort (\<lambda>a b. js_sub (score_number conv b) (score_number conv a)) ps)"
    using assms by (intro sort_throwing_ok by_score_desc_convertible) (simp_all add: ps_def)
  moreover have "js_sort (\<lambda>a b. js_sub (score_number conv b) (score_number conv a)) ps
          = sort_key (\<lambda>a. - score_value conv a) ps"
    by (rule sort_desc_scores) (simp add: ps_def)
  ultimately have sp: "sort_throwing (by_score_desc conv) ps
          = Inr (sort_key (\<lambda>a. - score_value conv a) ps)"
    by simp
  have "sort_throwing (by_score_asc conv) ns
          = Inr (js_sort (\<lambda>a b. js_sub (score_number conv a) (score_number conv b)) ns)"
    using assms by (intro sort_throwing_ok by_score_asc_convertible) (simp_all add: ns_def)
  moreover have "js_sort (\<lambda>a b. js_sub (score_number conv a) (score_number conv b)) ns
          = sort_key (score_value conv) ns"
    by (rule sort_asc_scores) (simp add: ns_def)
  ultimately have sn: "sort_throwing (by_score_asc conv) ns
          = Inr (sort_key (score_value conv) ns)"
    by simp
  have "partition_articles conv xs =
     Inr \<lparr> positive = take 5 (sort_key (\<lambda>a. - score_value conv a) ps),
           negative = take 5 (sort_key (score_value conv) ns),
           neutral =
             take 5 (filter (\<lambda>a. numeric conv a \<and> - (3 / 10) \<le> score_value conv a
                                  \<and> score_value conv a \<le> 3 / 10) xs) \<rparr>"
    by (simp add: partition_articles_def bind_err_def fp fn fz sp sn)
  then show ?thesis
    by (simp only: ps_def ns_def)
qed

lemma neutral_remainder:
  assumes "\<forall>a\<in>set xs. numeric conv a"
  shows "filter (\<lambda>a. numeric conv a \<and> - (3 / 10) \<le> score_value conv a
                     \<and> score_value conv a \<le> 3 / 10) xs
      = filter (\<lambda>a. \<not> 3 / 10 < score_value conv a \<and> \<not> score_value conv a < - (3 / 10)) xs"
  by (rule filter_cong) (use assms in auto)

lemma analyzeArticles_nonempty:
  "articles (rawArticles s c) \<noteq> [] \<Longrightarrow>
     analyzeArticles conv llm s c =
       (case partition_articles conv (annotate_all llm (articles (rawArticles s c))) of
          Inl e \<Rightarrow> Inl e
        | Inr b \<Rightarrow> Inr \<lparr> positive = positive b, negative = negative b, neutral = neutral b,
                         suggestions = [] \<rparr>)"
  by (simp add: analyzeArticles_def Let_def bind_err_def buckets.extend_def split: sum.splits)

lemma in_bucket_filtered: "a \<in> set (take n (sort_key k (filter P xs))) \<Longrightarrow> P a"
  by (auto dest: in_set_takeD)

lemma in_neutral_filtered: "a \<in> set (take n (filter P xs)) \<Longrightarrow> P a"
  by (auto dest: in_set_takeD)

lemma sample_state_Technology:
  "rawArticles sample_state Technology =
     \<lparr> articles = [sample_article], isLoading = False, lastError = None \<rparr>"
  "analysisCache sample_state Technology =
     \<lparr> cache_timestamp = 0, data = None, isAnalyzing = False,
       analysisStartTime = StartUndefined \<rparr>"
  by (simp_all add: sample_state_def initial_state_def)

lemma sample_annotation:
  "analyzeSentiment sample_llm a =
     Inr \<lparr> a_title = title a, a_url = url a, a_source = source a, a_timestamp = timestamp a,
           summary = JStr ''Chips are up.'', overall_sentiment = JStr ''positive'',
           sentiment_score = JNum (4 / 5), bias_level = JNum 1, manipulative_score = JNum 0,
           a_positive = JStr ''up'', a_negative = JStr ''none'' \<rparr>"
  by (simp add: analyzeSentiment_def annotate_try_def sample_llm_def bind_err_def)

lemma unscored_annotation:
  "analyzeSentiment unscored_llm a =
     Inr \<lparr> a_title = title a, a_url = url a, a_source = source a, a_timestamp = timestamp a,
           summary = JStr ''Chips are up.'', overall_sentiment = JStr ''positive'',
           sentiment_score = JUndefined, bias_level = JUndefined,
           manipulative_score = JUndefined,
           a_positive = JUndefined, a_negative = JUndefined \<rparr>"
  by (simp add: analyzeSentiment_def annotate_try_def unscored_llm_def bind_err_def)

lemma broken_annotation:
  "analyzeSentiment broken_llm a =
     Inr \<lparr> a_title = title a, a_url = url a, a_source = source a, a_timestamp = timestamp a,
           summary = JStr ''Chips are up.'', overall_sentiment = JStr ''positive'',
           sentiment_score = JObj [(''toString'', JNum 0)], bias_level = JUndefined,
           manipulative_score = JUndefined,
           a_positive = JUndefined, a_negative = JUndefined \<rparr>"
  by (simp add: analyzeSentiment_def annotate_try_def broken_llm_def bind_err_def)

text \<open>
  C4 (as amended). For every list \<open>xs\<close> of annotated articles: when every score can be made
  a primitive value (none is an object with a \<^verbatim>\<open>toString\<close> entry of its own, or an array
  holding one), the three buckets are the articles whose score is above \<open>0.3\<close>, stably
  sorted by descending score, the first five of them; the articles whose score is below
  \<open>-0.3\<close>, stably sorted by ascending score, the first five; and the first five, in the
  order of the list, of the articles whose score lies in \<open>[-0.3, 0.3]\<close>. An article whose
  score is not a number is in none of the three, so the last bucket is the remainder only
  where every score is a number. When some score cannot be made a primitive value,
  \<^verbatim>\<open>analyzeArticles\<close> throws a TypeError. A score that is a JSON number is that number, and
  a missing score is no number.
\<close>

theorem analyzeArticles_partitions:
  "((\<exists>a\<in>set xs. unconvertible (sentiment_score a)) \<longrightarrow>
      partition_articles conv xs = Inl (Error ''Cannot convert object to primitive value''))
   \<and> ((\<forall>a\<in>set xs. \<not> unconvertible (sentiment_score a)) \<longrightarrow>
      (\<exists>b. partition_articles conv xs = Inr b
         \<and> positive b =
             take 5 (sort_key (\<lambda>a. - score_value conv a)
                       (filter (\<lambda>a. numeric conv a \<and> 3 / 10 < score_value conv a) xs))
         \<and> negative b =
             take 5 (sort_key (score_value conv)
                       (filter (\<lambda>a. numeric conv a \<and> score_value conv a < - (3 / 10)) xs))
         \<and> neutral b =
             take 5 (filter (\<lambda>a. numeric conv a \<and> - (3 / 10) \<le> score_value conv a
                                  \<and> score_value conv a \<le> 3 / 10) xs)
         \<and> ((\<forall>a\<in>set xs. numeric conv a) \<longrightarrow>
              neutral b =
                take 5 (filter (\<lambda>a. \<not> 3 / 10 < score_value conv a
                                     \<and> \<not> score_value conv a < - (3 / 10)) xs))
         \<and> (\<forall>a\<in>set xs. \<not> numeric conv a \<longrightarrow>
              a \<notin> set (positive b) \<and> a \<notin> set (negative b) \<and> a \<notin> set (neutral b))
         \<and> sorted_wrt (\<lambda>a b. score_value conv b \<le> score_value conv a) (positive b)
         \<and> sorted_wrt (\<lambda>a b. score_value conv a \<le> score_value conv b) (negative b)
         \<and> length (positive b) \<le> 5 \<and> length (negative b) \<le> 5 \<and> length (neutral b) \<le> 5))
   \<and> (sentiment_score x = JNum r \<longrightarrow>
        \<not> unconvertible (sentiment_score x) \<and> numeric conv x \<and> score_value conv x = r)
   \<and> (sentiment_score x = JUndefined \<longrightarrow>
        \<not> unconvertible (sentiment_score x) \<and> \<not> numeric conv x)
   \<and> (sentiment_score x = JObj kvs \<longrightarrow>
        unconvertible (sentiment_score x) = (map_of kvs ''toString'' \<noteq> None)
        \<and> \<not> numeric conv x)
   \<and> (articles (rawArticles s c) \<noteq> [] \<longrightarrow>
        analyzeArticles conv llm s c =
          (case partition_articles conv (annotate_all llm (articles (rawArticles s c))) of
             Inl e \<Rightarrow> Inl e
           | Inr b \<Rightarrow> Inr \<lparr> positive = positive b, negative = negative b,
                            neutral = neutral b, suggestions = [] \<rparr>))"
proof (intro conjI impI)
  assume "\<exists>a\<in>set xs. unconvertible (sentiment_score a)"
  then show "partition_articles conv xs = Inl (Error ''Cannot convert object to primitive value'')"
    by (simp add: partition_throws NOT_PRIMITIVE_def [symmetric])
next
  assume c: "\<forall>a\<in>set xs. \<not> unconvertible (sentiment_score a)"
  define b where "b =
     \<lparr> positive =
             take 5 (sort_key (\<lambda>a. - score_value conv a)
                       (filter (\<lambda>a. numeric conv a \<and> 3 / 10 < score_value conv a) xs)),
           negative =
             take 5 (sort_key (score_value conv)
                       (filter (\<lambda>a. numeric conv a \<and> score_value conv a < - (3 / 10)) xs)),
           neutral =
             take 5 (filter (\<lambda>a. numeric conv a \<and> - (3 / 10) \<le> score_value conv a
                                  \<and> score_value conv a \<le> 3 / 10) xs) \<rparr>"
  have p: "partition_articles conv xs = Inr b"
    unfolding b_def using c by (rule partition_returns)
  have r: "(\<forall>a\<in>set xs. numeric conv a) \<longrightarrow>
              neutral b =
                take 5 (filter (\<lambda>a. \<not> 3 / 10 < score_value conv a
                                     \<and> \<not> score_value conv a < - (3 / 10)) xs)"
  proof
    assume "\<forall>a\<in>set xs. numeric conv a"
    then have "filter (\<lambda>a. numeric conv a \<and> - (3 / 10) \<le> score_value conv a
                     \<and> score_value conv a \<le> 3 / 10) xs
      = filter (\<lambda>a. \<not> 3 / 10 < score_value conv a \<and> \<not> score_value conv a < - (3 / 10)) xs"
      by (rule neutral_remainder)
    then show "neutral b =
                take 5 (filter (\<lambda>a. \<not> 3 / 10 < score_value conv a
                                     \<and> \<not> score_value conv a < - (3 / 10)) xs)"
      by (simp add: b_def)
  qed
  have n: "\<forall>a\<in>set xs. \<not> numeric conv a \<longrightarrow>
              a \<notin> set (positive b) \<and> a \<notin> set (negative b) \<and> a \<notin> set (neutral b)"
  proof (intro ballI impI)
    fix a
    assume a: "\<not> numeric conv a"
    have "a \<in> set (positive b) \<Longrightarrow> numeric conv a"
      unfolding b_def by (auto dest!: in_set_takeD)
    moreover have "a \<in> set (negative b) \<Longrightarrow> numeric conv a"
      unfolding b_def by (auto dest!: in_set_takeD)
    moreover have "a \<in> set (neutral b) \<Longrightarrow> numeric conv a"
      unfolding b_def by (auto dest!: in_set_takeD)
    ultimately show "a \<notin> set (positive b) \<and> a \<notin> set (negative b) \<and> a \<notin> set (neutral b)"
      using a by blast
  qed
  have e1: "positive b =
             take 5 (sort_key (\<lambda>a. - score_value conv a)
                       (filter (\<lambda>a. numeric conv a \<and> 3 / 10 < score_value conv a) xs))"
    by (simp add: b_def)
  have e2: "negative b =
             take 5 (sort_key (score_value conv)
                       (filter (\<lambda>a. numeric conv a \<and> score_value conv a < - (3 / 10)) xs))"
    by (simp add: b_def)
  have e3: "neutral b =
             take 5 (filter (\<lambda>a. numeric conv a \<and> - (3 / 10) \<le> score_value conv a
                                  \<and> score_value conv a \<le> 3 / 10) xs)"
    by (simp add: b_def)
  have sp: "sorted_wrt (\<lambda>a b. score_value conv b \<le> score_value conv a) (positive b)"
    unfolding e1 using sorted_wrt_sort_key [of "\<lambda>a. - score_value conv a"]
    by simp
  have sn: "sorted_wrt (\<lambda>a b. score_value conv a \<le> score_value conv b) (negative b)"
    unfolding e2 using sorted_wrt_sort_key [of "score_value conv"]
    by simp
  have l1: "length (positive b) \<le> 5"
    by (simp add: b_def)
  have l2: "length (negative b) \<le> 5"
    by (simp add: b_def)
  have l3: "length (neutral b) \<le> 5"
    by (simp add: b_def)
  from p e1 e2 e3 r n sp sn l1 l2 l3
  show "\<exists>b. partition_articles conv xs = Inr b
         \<and> positive b =
             take 5 (sort_key (\<lambda>a. - score_value conv a)
                       (filter (\<lambda>a. numeric conv a \<and> 3 / 10 < score_value conv a) xs))
         \<and> negative b =
             take 5 (sort_key (score_value conv)
                       (filter (\<lambda>a. numeric conv a \<and> score_value conv a < - (3 / 10)) xs))
         \<and> neutral b =
             take 5 (filter (\<lambda>a. numeric conv a \<and> - (3 / 10) \<le> score_value conv a
                                  \<and> score_value conv a \<le> 3 / 10) xs)
         \<and> ((\<forall>a\<in>set xs. numeric conv a) \<longrightarrow>
              neutral b =
                take 5 (filter (\<lambda>a. \<not> 3 / 10 < score_value conv a
                                     \<and> \<not> score_value conv a < - (3 / 10)) xs))
         \<and> (\<forall>a\<in>set xs. \<not> numeric conv a \<longrightarrow>
              a \<notin> set (positive b) \<and> a \<notin> set (negative b) \<and> a \<notin> set (neutral b))
         \<and> sorted_wrt (\<lambda>a b. score_value conv b \<le> score_value conv a) (positive b)
         \<and> sorted_wrt (\<lambda>a b. score_value conv a \<le> score_value conv b) (negative b)
         \<and> length (positive b) \<le> 5 \<and> length (negative b) \<le> 5 \<and> length (neutral b) \<le> 5"
    by blast
next
  assume "sentiment_score x = JNum r"
  then show "\<not> unconvertible (sentiment_score x)" "numeric conv x" "score_value conv x = r"
    by (simp_all add: numeric_def score_value_def score_number_def score_def)
next
  assume "sentiment_score x = JUndefined"
  then show "\<not> unconvertible (sentiment_score x)" "\<not> numeric conv x"
    by (simp_all add: numeric_def score_number_def score_def)
next
  assume "sentiment_score x = JObj kvs"
  then show "unconvertible (sentiment_score x) = (map_of kvs ''toString'' \<noteq> None)"
    "\<not> numeric conv x"
    by (simp_all add: numeric_def score_number_def score_def)
next
  assume "articles (rawArticles s c) \<noteq> []"
  then show "analyzeArticles conv llm s c =
          (case partition_articles conv (annotate_all llm (articles (rawArticles s c))) of
             Inl e \<Rightarrow> Inl e
           | Inr b \<Rightarrow> Inr \<lparr> positive = positive b, negative = negative b,
                            neutral = neutral b, suggestions = [] \<rparr>)"
    by (rule analyzeArticles_nonempty)
qed

theorem analyzeArticles_partitions_witness:
  "list_all (\<lambda>a. \<not> unconvertible (sentiment_score a)) sample_scored
   \<and> list_all (numeric no_conversion) sample_scored
   \<and> (\<exists>b. partition_articles no_conversion sample_scored = Inr b
         \<and> map a_url (positive b) = [Some ''d'', Some ''a'']
         \<and> map a_url (negative b) = [Some ''b'']
         \<and> map a_url (neutral b) = [Some ''c'', Some ''e''])
   \<and> unconvertible (sentiment_score (scored ''x'' (JObj [(''toString'', JNum 0)])))
   \<and> partition_articles no_conversion
         [scored ''a'' (JNum (1 / 2)), scored ''x'' (JObj [(''toString'', JNum 0)])]
       = Inl (Error ''Cannot convert object to primitive value'')
   \<and> \<not> numeric no_conversion (scored ''u'' JUndefined)
   \<and> partition_articles no_conversion [scored ''u'' JUndefined, scored ''a'' (JNum (1 / 2))]
       = Inr \<lparr> positive = [scored ''a'' (JNum (1 / 2))], negative = [], neutral = [] \<rparr>
   \<and> articles (rawArticles sample_state Technology) \<noteq> []
   \<and> analyzeArticles no_conversion sample_llm sample_state Technology =
       Inr \<lparr> positive = [sample_annotated], negative = [], neutral = [], suggestions = [] \<rparr>"
proof -
  have cv: "\<forall>a\<in>set sample_scored. \<not> unconvertible (sentiment_score a)"
    by (simp add: sample_scored_def scored_def)
  have nm: "\<forall>a\<in>set sample_scored. numeric no_conversion a"
    by (simp add: sample_scored_def scored_def numeric_def score_number_def score_def)
  have v: "map (score_value no_conversion) sample_scored = [1 / 2, - (1 / 2), 1 / 10, 9 / 10, 3 / 10]"
    by (simp add: sample_scored_def scored_def score_value_def score_number_def score_def)
  have u: "map a_url sample_scored = [Some ''a'', Some ''b'', Some ''c'', Some ''d'', Some ''e'']"
    by (simp add: sample_scored_def scored_def)
  have a: "articles (rawArticles sample_state Technology) \<noteq> []"
    by (simp add: sample_state_Technology)
  note t1 = analyzeArticles_partitions
         [of sample_scored no_conversion "scored ''a'' (JNum (1 / 2))" "1 / 2" "[]"
             sample_state Technology sample_llm]
  from t1 cv obtain b where b: "partition_articles no_conversion sample_scored = Inr b"
    "positive b =
             take 5 (sort_key (\<lambda>a. - score_value no_conversion a)
                       (filter (\<lambda>a. numeric no_conversion a
                                    \<and> 3 / 10 < score_value no_conversion a) sample_scored))"
    "negative b =
             take 5 (sort_key (score_value no_conversion)
                       (filter (\<lambda>a. numeric no_conversion a
                                    \<and> score_value no_conversion a < - (3 / 10)) sample_scored))"
    "neutral b =
             take 5 (filter (\<lambda>a. numeric no_conversion a
                                  \<and> - (3 / 10) \<le> score_value no_conversion a
                                  \<and> score_value no_conversion a \<le> 3 / 10) sample_scored)"
    by blast
  have 1: "\<exists>b. partition_articles no_conversion sample_scored = Inr b
         \<and> map a_url (positive b) = [Some ''d'', Some ''a'']
         \<and> map a_url (negative b) = [Some ''b'']
         \<and> map a_url (neutral b) = [Some ''c'', Some ''e'']"
    using b nm u v by (intro exI [of _ b]) (simp add: sample_scored_def)
  have ux: "unconvertible (sentiment_score (scored ''x'' (JObj [(''toString'', JNum 0)])))"
    by (simp add: scored_def)
  then have "\<exists>a\<in>set [scored ''a'' (JNum (1 / 2)), scored ''x'' (JObj [(''toString'', JNum 0)])].
             unconvertible (sentiment_score a)"
    by simp
  with analyzeArticles_partitions
         [of "[scored ''a'' (JNum (1 / 2)), scored ''x'' (JObj [(''toString'', JNum 0)])]"
             no_conversion]
  have 2: "partition_articles no_conversion
         [scored ''a'' (JNum (1 / 2)), scored ''x'' (JObj [(''toString'', JNum 0)])]
       = Inl (Error ''Cannot convert object to primitive value'')"
    by blast
  have su: "sentiment_score (scored ''u'' JUndefined) = JUndefined"
    by (simp add: scored_def)
  with analyzeArticles_partitions [of _ no_conversion "scored ''u'' JUndefined"]
  have 3: "\<not> numeric no_conversion (scored ''u'' JUndefined)"
    by blast
  have 4: "partition_articles no_conversion [scored ''u'' JUndefined, scored ''a'' (JNum (1 / 2))]
       = Inr \<lparr> positive = [scored ''a'' (JNum (1 / 2))], negative = [], neutral = [] \<rparr>"
    by (subst partition_returns)
       (simp_all add: scored_def numeric_def score_value_def score_number_def score_def)
  from t1 a
  have "analyzeArticles no_conversion sample_llm sample_state Technology =
          (case partition_articles no_conversion
                  (annotate_all sample_llm (articles (rawArticles sample_state Technology))) of
             Inl e \<Rightarrow> Inl e
           | Inr b \<Rightarrow> Inr \<lparr> positive = positive b, negative = negative b,
                            neutral = neutral b, suggestions = [] \<rparr>)"
    by blast
  moreover have "partition_articles no_conversion
                  (annotate_all sample_llm (articles (rawArticles sample_state Technology)))
      = Inr \<lparr> positive = [sample_annotated], negative = [], neutral = [] \<rparr>"
    by (subst partition_returns)
       (simp_all add: sample_state_Technology sample_annotation sample_annotated_def
          sample_article_def numeric_def score_value_def score_number_def score_def)
  ultimately have 5: "analyzeArticles no_conversion sample_llm sample_state Technology =
       Inr \<lparr> positive = [sample_annotated], negative = [], neutral = [], suggestions = [] \<rparr>"
    by simp
  from cv nm 1 ux 2 3 4 a 5 show ?thesis
    by (simp add: list_all_iff)
qed

text \<open>
  C4 as stated fails for an annotation without a score, which the annotator returns for a
  reply that lacks the field: the one annotated article is in the remainder, and in none
  of the three buckets.
\<close>

theorem unscored_article_in_no_bucket_counterexample:
  "annotate_all unscored_llm (articles (rawArticles sample_state Technology))
     = [\<lparr> a_title = Some ''Chip sales rise'', a_url = Some ''https://example.org/chips'',
          a_source = Some ''Example News'', a_timestamp = 1700000000000,
          summary = JStr ''Chips are up.'', overall_sentiment = JStr ''positive'',
          sentiment_score = JUndefined, bias_level = JUndefined,
          manipulative_score = JUndefined,
          a_positive = JUndefined, a_negative = JUndefined \<rparr>]
   \<and> analyzeArticles no_conversion unscored_llm sample_state Technology =
       Inr \<lparr> positive = [], negative = [], neutral = [], suggestions = [] \<rparr>"
proof -
  have x: "annotate_all unscored_llm (articles (rawArticles sample_state Technology))
     = [\<lparr> a_title = Some ''Chip sales rise'', a_url = Some ''https://example.org/chips'',
          a_source = Some ''Example News'', a_timestamp = 1700000000000,
          summary = JStr ''Chips are up.'', overall_sentiment = JStr ''positive'',
          sentiment_score = JUndefined, bias_level = JUndefined,
          manipulative_score = JUndefined,
          a_positive = JUndefined, a_negative = JUndefined \<rparr>]"
    by (simp add: sample_state_Technology unscored_annotation sample_article_def)
  have "articles (rawArticles sample_state Technology) \<noteq> []"
    by (simp add: sample_state_Technology)
  then have "analyzeArticles no_conversion unscored_llm sample_state Technology =
       (case partition_articles no_conversion
               (annotate_all unscored_llm (articles (rawArticles sample_state Technology))) of
          Inl e \<Rightarrow> Inl e
        | Inr b \<Rightarrow> Inr \<lparr> positive = positive b, negative = negative b, neutral = neutral b,
                         suggestions = [] \<rparr>)"
    by (rule analyzeArticles_nonempty)
  moreover have "partition_articles no_conversion
               (annotate_all unscored_llm (articles (rawArticles sample_state Technology)))
       = Inr \<lparr> positive = [], negative = [], neutral = [] \<rparr>"
    unfolding x
    by (subst partition_returns) (simp_all add: numeric_def score_number_def score_def)
  ultimately show ?thesis
    using x by simp
qed

subsection \<open>The structure of a fetch cycle\<close>

declare fetch_attempts.simps [simp del]

text \<open>\<^verbatim>\<open>fetchWithRetry\<close> makes up to three attempts and throws the error of the third.\<close>

lemma fetchWithRetry_unfold:
  "fetchWithRetry env feed =
     (case parseURL env (feed_url feed) 1 of
        Inr d \<Rightarrow> Inr (Some d)
      | Inl e1 \<Rightarrow>
          (case parseURL env (feed_url feed) 2 of
             Inr d \<Rightarrow> Inr (Some d)
           | Inl e2 \<Rightarrow>
               (case parseURL env (feed_url feed) 3 of
                  Inr d \<Rightarrow> Inr (Some d)
                | Inl e3 \<Rightarrow> Inl e3)))"
proof -
  have a3: "fetch_attempts env feed 3 3 =
      (case parseURL env (feed_url feed) 3 of Inr d \<Rightarrow> Inr (Some d) | Inl e3 \<Rightarrow> Inl e3)"
    by (subst fetch_attempts.simps) (simp split: sum.splits)
  have a2: "fetch_attempts env feed 3 2 =
      (case parseURL env (feed_url feed) 2 of Inr d \<Rightarrow> Inr (Some d)
       | Inl e2 \<Rightarrow> fetch_attempts env feed 3 3)"
    by (subst fetch_attempts.simps) (simp split: sum.splits)
  have a1: "fetch_attempts env feed 3 1 =
      (case parseURL env (feed_url feed) 1 of Inr d \<Rightarrow> Inr (Some d)
       | Inl e1 \<Rightarrow> fetch_attempts env feed 3 2)"
    by (subst fetch_attempts.simps) (simp split: sum.splits add: numeral_2_eq_2)
  show ?thesis
    by (simp only: fetchWithRetry_def a1 a2 a3)
qed

lemma feedsByCategory_RSS_FEEDS:
  "feedsByCategory RSS_FEEDS =
     [(Breaking, category_feeds Breaking), (Technology, category_feeds Technology),
      (Business, category_feeds Business), (Science, category_feeds Science),
      (Health, category_feeds Health)]"
  by (simp add: feedsByCategory_def RSS_FEEDS_def category_feeds_def)

text \<open>A cycle updates the entry of every category from that category's own sources.\<close>

lemma fetchAllFeeds_rawArticles:
  "rawArticles (fetchAllFeeds env s) c = update_category env (category_feeds c) (rawArticles s c)"
  by (cases c) (simp_all add: fetchAllFeeds_def feedsByCategory_RSS_FEEDS fetch_category_def)

lemma fetchAllFeeds_analysisCache:
  "analysisCache (fetchAllFeeds env s) = analysisCache s"
  by (simp add: fetchAllFeeds_def feedsByCategory_RSS_FEEDS fetch_category_def)

lemma try_feeds_fst:
  "fst (try_feeds env feeds (b, acc)) = (b \<or> (\<exists>f\<in>set feeds. feed_succeeds env f))"
  by (induction feeds arbitrary: b acc) (auto simp: feed_succeeds_def split: sum.splits)

lemma try_feeds_snd:
  "snd (try_feeds env feeds (b, acc)) = acc @ newly_fetched env feeds"
  by (induction feeds arbitrary: b acc)
     (auto simp: newly_fetched_def feed_articles_def split: sum.splits)

subsection \<open>Deduplication, sorting and truncation\<close>

lemma Map_set_keys: "fst ` set (Map_set m k v) = insert k (fst ` set m)"
  by (induction m) (auto simp: rev_image_eqI split: if_splits)

lemma Map_set_distinct: "distinct (map fst m) \<Longrightarrow> distinct (map fst (Map_set m k v))"
proof (induction m)
  case Nil
  show ?case by simp
next
  case (Cons e m)
  obtain k' v' where e: "e = (k', v')" by (cases e)
  from Cons show ?case
    using Map_set_keys [of m k v] by (auto simp: e)
qed

lemma Map_set_map_of: "map_of (Map_set m k v) = (map_of m)(k \<mapsto> v)"
  by (induction m) auto

lemma Map_fold_keys_distinct:
  "distinct (map fst m) \<Longrightarrow> distinct (map fst (foldl (\<lambda>m (k, v). Map_set m k v) m es))"
  by (induction es arbitrary: m) (auto simp: Map_set_distinct)

lemma Map_fold_keys_set:
  "fst ` set (foldl (\<lambda>m (k, v). Map_set m k v) m es) = fst ` set m \<union> fst ` set es"
  by (induction es arbitrary: m) (force simp: Map_set_keys)+

lemma Map_fold_map_of:
  "map_of (foldl (\<lambda>m (k, v). Map_set m k v) m es) u =
     (case map_of (rev es) u of None \<Rightarrow> map_of m u | Some v \<Rightarrow> Some v)"
proof (induction es arbitrary: m)
  case Nil
  show ?case by simp
next
  case (Cons e es)
  obtain k v where e: "e = (k, v)" by (cases e)
  show ?case
    by (simp add: e Cons.IH Map_set_map_of map_add_def split: option.splits)
qed

lemma map_of_url_find:
  "map_of (map (\<lambda>a. (url a, a)) ys) u = find (\<lambda>b. url b = u) ys"
  by (induction ys) auto

lemma new_Map_lookup:
  "map_of (new_Map (map (\<lambda>a. (url a, a)) xs)) u = most_recently_seen u xs"
  by (simp add: new_Map_def Map_fold_map_of most_recently_seen_def rev_map map_of_url_find
           split: option.splits)

lemma new_Map_distinct: "distinct (map fst (new_Map es))"
  by (simp add: new_Map_def Map_fold_keys_distinct)

lemma new_Map_entry:
  "(k, a) \<in> set (new_Map (map (\<lambda>a. (url a, a)) xs)) \<longleftrightarrow> most_recently_seen k xs = Some a"
proof -
  have "(k, a) \<in> set (new_Map (map (\<lambda>a. (url a, a)) xs))
          \<longleftrightarrow> map_of (new_Map (map (\<lambda>a. (url a, a)) xs)) k = Some a"
    using new_Map_distinct [of "map (\<lambda>a. (url a, a)) xs"] by simp
  then show ?thesis by (simp add: new_Map_lookup)
qed

lemma find_Some_member: "find P xs = Some a \<Longrightarrow> P a \<and> a \<in> set xs"
  by (induction xs) (auto split: if_splits)

lemma most_recently_seen_url: "most_recently_seen k xs = Some a \<Longrightarrow> url a = k \<and> a \<in> set xs"
  using find_Some_member [of "\<lambda>b. url b = k" "rev xs" a] by (simp add: most_recently_seen_def)

lemma uniqueArticles_urls:
  "map url (uniqueArticles xs) = map fst (new_Map (map (\<lambda>a. (url a, a)) xs))"
proof -
  have "\<And>e. e \<in> set (new_Map (map (\<lambda>a. (url a, a)) xs)) \<Longrightarrow> url (snd e) = fst e"
  proof -
    fix e assume "e \<in> set (new_Map (map (\<lambda>a. (url a, a)) xs))"
    then have "most_recently_seen (fst e) xs = Some (snd e)"
      using new_Map_entry [of "fst e" "snd e" xs] by simp
    then show "url (snd e) = fst e" using most_recently_seen_url by blast
  qed
  then show ?thesis
    by (simp add: uniqueArticles_def Map_values_def)
qed

lemma uniqueArticles_distinct: "distinct (map url (uniqueArticles xs))"
  by (simp add: uniqueArticles_urls new_Map_distinct)

lemma uniqueArticles_url_set: "set (map url (uniqueArticles xs)) = url ` set xs"
  by (simp add: uniqueArticles_urls new_Map_def Map_fold_keys_set image_image)

lemma uniqueArticles_member:
  "a \<in> set (uniqueArticles xs) \<longleftrightarrow> most_recently_seen (url a) xs = Some a"
proof
  assume "a \<in> set (uniqueArticles xs)"
  then obtain k where "(k, a) \<in> set (new_Map (map (\<lambda>a. (url a, a)) xs))"
    by (auto simp: uniqueArticles_def Map_values_def)
  then have m: "most_recently_seen k xs = Some a" by (simp add: new_Map_entry)
  with most_recently_seen_url [OF m] show "most_recently_seen (url a) xs = Some a" by simp
next
  assume "most_recently_seen (url a) xs = Some a"
  then have "(url a, a) \<in> set (new_Map (map (\<lambda>a. (url a, a)) xs))" by (simp add: new_Map_entry)
  then show "a \<in> set (uniqueArticles xs)"
    by (force simp: uniqueArticles_def Map_values_def)
qed

lemma sort_by_timestamp: "js_sort by_timestamp_desc xs = sort_key (\<lambda>a. - timestamp a) xs"
  by (rule js_sort_sort_key) (simp add: by_timestamp_desc_def)

lemma distinct_map_insort_key:
  "distinct (map f (insort_key k x xs)) = distinct (map f (x # xs))"
  by (induction xs) (auto simp: set_insort_key)

lemma distinct_map_sort_key: "distinct (map f (sort_key k xs)) = distinct (map f xs)"
  by (induction xs) (simp_all add: distinct_map_insort_key)

lemma sorted_desc_timestamps:
  "sorted_wrt (\<lambda>a b. timestamp b \<le> timestamp a) (take n (sort_key (\<lambda>a. - timestamp a) xs))"
  using sorted_wrt_sort_key [of "\<lambda>a. - timestamp a" xs] by simp

subsection \<open>What a cycle does to a category\<close>

lemma update_category_success:
  "\<exists>f\<in>set feeds. feed_succeeds env f \<Longrightarrow>
     update_category env feeds raw =
       raw \<lparr> articles := take 10 (sort_key (\<lambda>a. - timestamp a)
                                     (uniqueArticles (articles raw @ newly_fetched env feeds))),
             isLoading := False, lastError := None \<rparr>"
  by (simp add: update_category_def Let_def try_feeds_fst try_feeds_snd sort_by_timestamp)

lemma update_category_failure:
  "\<forall>f\<in>set feeds. \<not> feed_succeeds env f \<Longrightarrow>
     update_category env feeds raw = raw \<lparr> isLoading := False, lastError := Some FETCH_FAILED \<rparr>"
  by (simp add: update_category_def Let_def try_feeds_fst)

lemma update_category_cap:
  assumes "length (articles raw) \<le> 10"
    and "sorted_wrt (\<lambda>a b. timestamp b \<le> timestamp a) (articles raw)"
  shows "length (articles (update_category env feeds raw)) \<le> 10
       \<and> sorted_wrt (\<lambda>a b. timestamp b \<le> timestamp a) (articles (update_category env feeds raw))"
proof (cases "\<exists>f\<in>set feeds. feed_succeeds env f")
  case True
  then show ?thesis
    by (simp add: update_category_success sorted_desc_timestamps)
next
  case False
  then show ?thesis
    using assms by (simp add: update_category_failure)
qed

lemma fetchAllFeeds_retention: "retention_inv s \<Longrightarrow> retention_inv (fetchAllFeeds env s)"
  by (simp add: retention_inv_def fetchAllFeeds_rawArticles update_category_cap)

lemma handler_core_rawArticles:
  "rawArticles (fst (handler_core analyze clk s p)) = rawArticles s"
  by (simp add: handler_core_def run_analysis_def mark_analyzing_def Let_def
        split: property.splits option.splits sum.splits js_error.splits)

lemma reachable_retention: "reachable s \<Longrightarrow> retention_inv s"
proof (induction rule: reachable.induct)
  case reachable_initial
  show ?case by (simp add: retention_inv_def initial_state_def)
next
  case (reachable_fetch s env)
  then show ?case by (simp add: fetchAllFeeds_retention)
next
  case (reachable_request s conv llm clk param)
  then show ?case by (simp add: retention_inv_def handler_def handler_core_rawArticles)
qed

lemma length_uniqueArticles:
  "length (uniqueArticles xs) = length (remdups (map url xs))"
proof -
  have "length (uniqueArticles xs) = length (map url (uniqueArticles xs))" by simp
  also have "\<dots> = card (set (map url (uniqueArticles xs)))"
    using uniqueArticles_distinct [of xs] by (simp only: distinct_card)
  also have "\<dots> = card (set (map url xs))"
    using uniqueArticles_url_set [of xs] by simp
  also have "\<dots> = length (remdups (map url xs))"
    by (simp only: length_remdups_card_conv)
  finally show ?thesis .
qed

subsection \<open>The sample cycles\<close>

lemma category_feeds_Breaking: "category_feeds Breaking = [top_stories_feed, india_feed]"
  by (simp add: category_feeds_def RSS_FEEDS_def top_stories_feed_def india_feed_def)

lemma top_stories_feed_ok:
  "sample_dates d = Some t \<Longrightarrow>
   process_feed \<lparr> parseURL = top_stories d, DateParse = sample_dates, DateNow = n \<rparr>
     top_stories_feed = Inr [storm_article t]"
proof -
  assume t: "sample_dates d = Some t"
  then have "d \<noteq> []" by (auto simp: sample_dates_def)
  with t show ?thesis
    by (simp add: process_feed_def fetchWithRetry_unfold top_stories_def top_stories_feed_def
          to_article_def item_timestamp_def item_content_def js_or_def truthy_def
          storm_item_def storm_article_def index_opt_def)
qed

lemma india_feed_fails:
  "process_feed \<lparr> parseURL = top_stories d, DateParse = sample_dates, DateNow = n \<rparr>
     india_feed = Inl (Error ''Request timed out'')"
  by (simp add: process_feed_def fetchWithRetry_unfold top_stories_def india_feed_def)

lemma outage_fails: "process_feed outage_cycle f = Inl (Error ''Request timed out'')"
  by (simp add: process_feed_def fetchWithRetry_unfold outage_cycle_def)

lemma first_cycle_feeds:
  "process_feed first_cycle top_stories_feed = Inr [storm_article 1704103200000]"
  "process_feed first_cycle india_feed = Inl (Error ''Request timed out'')"
  by (simp_all add: first_cycle_def top_stories_feed_ok india_feed_fails sample_dates_def)

lemma second_cycle_feeds:
  "process_feed second_cycle top_stories_feed = Inr [storm_article 1704099600000]"
  "process_feed second_cycle india_feed = Inl (Error ''Request timed out'')"
  by (simp_all add: second_cycle_def top_stories_feed_ok india_feed_fails sample_dates_def)

lemma uniqueArticles_single: "uniqueArticles [a] = [a]"
  by (simp add: uniqueArticles_def new_Map_def Map_values_def)

lemma uniqueArticles_same_url: "url a = url b \<Longrightarrow> uniqueArticles [a, b] = [b]"
  by (simp add: uniqueArticles_def new_Map_def Map_values_def)

lemma after_first_cycle:
  "rawArticles (fetchAllFeeds first_cycle initial_state) Breaking =
     \<lparr> articles = [storm_article 1704103200000], isLoading = False, lastError = None \<rparr>"
  by (simp add: fetchAllFeeds_rawArticles category_feeds_Breaking update_category_def
        first_cycle_feeds sort_by_timestamp uniqueArticles_single initial_state_def)

lemma after_second_cycle:
  "rawArticles (fetchAllFeeds second_cycle (fetchAllFeeds first_cycle initial_state)) Breaking =
     \<lparr> articles = [storm_article 1704099600000], isLoading = False, lastError = None \<rparr>"
  by (simp add: fetchAllFeeds_rawArticles [of second_cycle] after_first_cycle
        category_feeds_Breaking update_category_def
        second_cycle_feeds sort_by_timestamp uniqueArticles_same_url storm_article_def)

lemma after_outage:
  "rawArticles (fetchAllFeeds outage_cycle (fetchAllFeeds first_cycle initial_state)) Breaking =
     \<lparr> articles = [storm_article 1704103200000], isLoading = False,
       lastError = Some ''Failed to fetch articles from any source for this category'' \<rparr>"
  by (simp add: fetchAllFeeds_rawArticles [of outage_cycle] after_first_cycle
        category_feeds_Breaking update_category_def outage_fails FETCH_FAILED_def)

lemma exhausted_retries:
  assumes "\<forall>k\<in>{1, 2, 3}. \<exists>e. parseURL env (feed_url f) k = Inl e"
  shows "\<not> feed_succeeds env f \<and> feed_articles env f = []"
proof -
  from assms obtain e1 e2 e3 where
    "parseURL env (feed_url f) 1 = Inl e1" "parseURL env (feed_url f) 2 = Inl e2"
    "parseURL env (feed_url f) 3 = Inl e3"
    by auto
  then show ?thesis
    by (simp add: feed_succeeds_def feed_articles_def process_feed_def fetchWithRetry_unfold)
qed



lemma category_feeds_Technology:
  "category_feeds Technology =
     [\<lparr> feed_category = Technology,
        feed_url = ''https://timesofindia.indiatimes.com/rssfeeds/66949542.cms'' \<rparr>]"
  by (simp add: category_feeds_def RSS_FEEDS_def)

lemma busy_feed:
  "process_feed busy_cycle
     \<lparr> feed_category = Technology,
       feed_url = ''https://timesofindia.indiatimes.com/rssfeeds/66949542.cms'' \<rparr>
   = Inr [numbered_article ''1'' 0, numbered_article ''2'' 1, numbered_article ''3'' 2,
          numbered_article ''4'' 3, numbered_article ''5'' 4, numbered_article ''6'' 5]"
  by (simp add: process_feed_def fetchWithRetry_unfold busy_cycle_def
          to_article_def item_timestamp_def item_content_def js_or_def truthy_def
          numbered_item_def numbered_article_def index_opt_def)

lemma crowded_feed:
  "process_feed crowded_cycle
     \<lparr> feed_category = Technology,
       feed_url = ''https://timesofindia.indiatimes.com/rssfeeds/66949542.cms'' \<rparr>
   = Inr [numbered_article ''1'' 0, numbered_article ''2'' 1, numbered_article ''3'' 2,
          numbered_article ''4'' 3, numbered_article ''5'' 4, numbered_article ''6'' 5,
          numbered_article ''7'' 6, numbered_article ''8'' 7, numbered_article ''9'' 8,
          numbered_article ''10'' 9, numbered_article ''11'' 10, numbered_article ''12'' 11]"
  by (simp add: process_feed_def fetchWithRetry_unfold crowded_cycle_def
          to_article_def item_timestamp_def item_content_def js_or_def truthy_def
          numbered_item_def numbered_article_def index_opt_def)

lemma after_crowded_cycle:
  "rawArticles (fetchAllFeeds crowded_cycle initial_state) Technology =
     \<lparr> articles =
         [numbered_article ''12'' 11, numbered_article ''11'' 10, numbered_article ''10'' 9,
          numbered_article ''9'' 8, numbered_article ''8'' 7, numbered_article ''7'' 6,
          numbered_article ''6'' 5, numbered_article ''5'' 4, numbered_article ''4'' 3,
          numbered_article ''3'' 2],
       isLoading = False, lastError = None \<rparr>"
  by (simp add: fetchAllFeeds_rawArticles category_feeds_Technology update_category_def
        crowded_feed sort_by_timestamp initial_state_def
        uniqueArticles_def new_Map_def Map_values_def numbered_article_def)

lemma after_crowded_then_busy:
  "rawArticles (fetchAllFeeds busy_cycle (fetchAllFeeds crowded_cycle initial_state)) Technology =
     \<lparr> articles =
         [numbered_article ''12'' 11, numbered_article ''11'' 10, numbered_article ''10'' 9,
          numbered_article ''9'' 8, numbered_article ''8'' 7, numbered_article ''7'' 6,
          numbered_article ''6'' 5, numbered_article ''5'' 4, numbered_article ''4'' 3,
          numbered_article ''3'' 2],
       isLoading = False, lastError = None \<rparr>"
  by (simp add: fetchAllFeeds_rawArticles [of busy_cycle] after_crowded_cycle
        category_feeds_Technology update_category_def
        busy_feed sort_by_timestamp
        uniqueArticles_def new_Map_def Map_values_def numbered_article_def)

subsection \<open>Claims about the fetch cycle\<close>

text \<open>
  C2 (as amended). In a cycle in which at least one source of the category succeeds, the
  retained list holds no url twice, and every retained article is the most recently seen
  entry for its url: the last one with that url in the sequence of the articles retained
  before followed by the newly fetched ones, whatever the timestamps. When that sequence
  has at most ten different urls, each of them is retained (so each exactly once).
\<close>

theorem fetch_deduplicates:
  assumes "\<exists>f\<in>set (category_feeds c). feed_succeeds env f"
  shows "distinct (map url (articles (rawArticles (fetchAllFeeds env s) c)))
       \<and> (\<forall>a\<in>set (articles (rawArticles (fetchAllFeeds env s) c)).
            most_recently_seen (url a)
              (articles (rawArticles s c) @ newly_fetched env (category_feeds c)) = Some a)
       \<and> (length (remdups (map url
             (articles (rawArticles s c) @ newly_fetched env (category_feeds c)))) \<le> 10 \<longrightarrow>
            url ` set (articles (rawArticles (fetchAllFeeds env s) c)) =
            url ` set (articles (rawArticles s c) @ newly_fetched env (category_feeds c)))"
proof -
  define combined where "combined = articles (rawArticles s c) @ newly_fetched env (category_feeds c)"
  define retained where "retained = articles (rawArticles (fetchAllFeeds env s) c)"
  have r: "retained = take 10 (sort_key (\<lambda>a. - timestamp a) (uniqueArticles combined))"
    using assms
    by (simp add: retained_def combined_def fetchAllFeeds_rawArticles update_category_success)
  have "distinct (map url (sort_key (\<lambda>a. - timestamp a) (uniqueArticles combined)))"
    using uniqueArticles_distinct [of combined] by (simp only: distinct_map_sort_key)
  then have "distinct (take 10 (map url (sort_key (\<lambda>a. - timestamp a) (uniqueArticles combined))))"
    by (rule distinct_take)
  then have d: "distinct (map url retained)"
    by (simp only: r take_map)
  have m: "\<forall>a\<in>set retained. most_recently_seen (url a) combined = Some a"
  proof
    fix a assume "a \<in> set retained"
    then have "a \<in> set (sort_key (\<lambda>a. - timestamp a) (uniqueArticles combined))"
      unfolding r by (rule in_set_takeD)
    then show "most_recently_seen (url a) combined = Some a"
      by (simp add: uniqueArticles_member)
  qed
  have e: "length (remdups (map url combined)) \<le> 10 \<longrightarrow> url ` set retained = url ` set combined"
  proof
    assume "length (remdups (map url combined)) \<le> 10"
    then have "length (sort_key (\<lambda>a. - timestamp a) (uniqueArticles combined)) \<le> 10"
      by (simp add: length_uniqueArticles)
    then have "retained = sort_key (\<lambda>a. - timestamp a) (uniqueArticles combined)"
      unfolding r by (rule take_all)
    then have "url ` set retained = set (map url (uniqueArticles combined))" by simp
    then show "url ` set retained = url ` set combined"
      by (simp only: uniqueArticles_url_set)
  qed
  from d m e show ?thesis
    unfolding retained_def combined_def by blast
qed

theorem fetch_deduplicates_witness:
  "feed_succeeds second_cycle top_stories_feed
   \<and> distinct (map url (articles
         (rawArticles (fetchAllFeeds second_cycle (fetchAllFeeds first_cycle initial_state))
            Breaking)))
   \<and> most_recently_seen (Some ''https://example.org/storm'')
         (articles (rawArticles (fetchAllFeeds first_cycle initial_state) Breaking)
            @ newly_fetched second_cycle (category_feeds Breaking))
       = Some (storm_article 1704099600000)
   \<and> map url (articles
         (rawArticles (fetchAllFeeds second_cycle (fetchAllFeeds first_cycle initial_state))
            Breaking)) = [Some ''https://example.org/storm'']"
proof -
  have f: "feed_succeeds second_cycle top_stories_feed"
    by (simp add: feed_succeeds_def second_cycle_feeds)
  then have h: "\<exists>f\<in>set (category_feeds Breaking). feed_succeeds second_cycle f"
    by (simp add: category_feeds_Breaking)
  have m: "most_recently_seen (Some ''https://example.org/storm'')
         (articles (rawArticles (fetchAllFeeds first_cycle initial_state) Breaking)
            @ newly_fetched second_cycle (category_feeds Breaking))
       = Some (storm_article 1704099600000)"
    by (simp add: after_first_cycle newly_fetched_def feed_articles_def category_feeds_Breaking
          second_cycle_feeds most_recently_seen_def storm_article_def)
  from fetch_deduplicates [OF h, of "fetchAllFeeds first_cycle initial_state"] f m
  show ?thesis
    by (simp add: after_second_cycle storm_article_def)
qed

text \<open>
  C2 as stated fails: the source gives a link again with an earlier publication date. The
  entry kept for the url is the newly fetched one, not the one with the newest timestamp.
\<close>

theorem fetch_keeps_last_seen_counterexample:
  "articles (rawArticles (fetchAllFeeds first_cycle initial_state) Breaking)
     = [storm_article 1704103200000]
   \<and> newly_fetched second_cycle (category_feeds Breaking) = [storm_article 1704099600000]
   \<and> url (storm_article 1704099600000) = url (storm_article 1704103200000)
   \<and> timestamp (storm_article 1704099600000) < timestamp (storm_article 1704103200000)
   \<and> articles (rawArticles (fetchAllFeeds second_cycle (fetchAllFeeds first_cycle initial_state))
        Breaking) = [storm_article 1704099600000]"
  by (simp add: after_first_cycle after_second_cycle newly_fetched_def feed_articles_def
        category_feeds_Breaking second_cycle_feeds storm_article_def)

text \<open>
  C7. In every state the server reaches, by any number of polling cycles (and requests in
  between), every category retains at most ten articles, in descending order of
  timestamp; and a polling cycle preserves this from any state that has it.
\<close>

theorem retention_cap:
  "(reachable s \<longrightarrow>
      length (articles (rawArticles s c)) \<le> 10
      \<and> sorted_wrt (\<lambda>a b. timestamp b \<le> timestamp a) (articles (rawArticles s c)))
   \<and> (retention_inv s' \<longrightarrow> retention_inv (fetchAllFeeds env s'))"
  using reachable_retention [of s] fetchAllFeeds_retention [of s' env]
  by (auto simp: retention_inv_def)

theorem retention_cap_witness:
  "reachable (fetchAllFeeds crowded_cycle initial_state)
   \<and> map timestamp
         (articles (rawArticles (fetchAllFeeds crowded_cycle initial_state) Technology))
       = [1704106800011, 1704106800010, 1704106800009, 1704106800008, 1704106800007,
          1704106800006, 1704106800005, 1704106800004, 1704106800003, 1704106800002]
   \<and> length (articles (rawArticles (fetchAllFeeds crowded_cycle initial_state) Technology))
       \<le> 10
   \<and> sorted_wrt (\<lambda>a b. timestamp b \<le> timestamp a)
        (articles (rawArticles (fetchAllFeeds crowded_cycle initial_state) Technology))
   \<and> retention_inv (fetchAllFeeds crowded_cycle initial_state)
   \<and> retention_inv (fetchAllFeeds busy_cycle (fetchAllFeeds crowded_cycle initial_state))
   \<and> map timestamp
         (articles (rawArticles
            (fetchAllFeeds busy_cycle (fetchAllFeeds crowded_cycle initial_state)) Technology))
       = [1704106800011, 1704106800010, 1704106800009, 1704106800008, 1704106800007,
          1704106800006, 1704106800005, 1704106800004, 1704106800003, 1704106800002]"
proof -
  have r: "reachable (fetchAllFeeds crowded_cycle initial_state)"
    by (intro reachable_fetch reachable_initial)
  have i: "retention_inv initial_state"
    by (simp add: retention_inv_def initial_state_def)
  have t1: "map timestamp
         (articles (rawArticles (fetchAllFeeds crowded_cycle initial_state) Technology))
       = [1704106800011, 1704106800010, 1704106800009, 1704106800008, 1704106800007,
          1704106800006, 1704106800005, 1704106800004, 1704106800003, 1704106800002]"
    by (simp add: after_crowded_cycle numbered_article_def)
  have t2: "map timestamp
         (articles (rawArticles
            (fetchAllFeeds busy_cycle (fetchAllFeeds crowded_cycle initial_state)) Technology))
       = [1704106800011, 1704106800010, 1704106800009, 1704106800008, 1704106800007,
          1704106800006, 1704106800005, 1704106800004, 1704106800003, 1704106800002]"
    by (simp add: after_crowded_then_busy numbered_article_def)
  from retention_cap
         [of "fetchAllFeeds crowded_cycle initial_state" Technology initial_state crowded_cycle]
    r i
  have a: "length (articles (rawArticles (fetchAllFeeds crowded_cycle initial_state) Technology))
       \<le> 10
   \<and> sorted_wrt (\<lambda>a b. timestamp b \<le> timestamp a)
        (articles (rawArticles (fetchAllFeeds crowded_cycle initial_state) Technology))"
    and b: "retention_inv (fetchAllFeeds crowded_cycle initial_state)"
    by blast+
  from retention_cap
         [of initial_state Technology "fetchAllFeeds crowded_cycle initial_state" busy_cycle] b
  have c: "retention_inv (fetchAllFeeds busy_cycle (fetchAllFeeds crowded_cycle initial_state))"
    by blast
  from r t1 a b c t2 show ?thesis by blast
qed

text \<open>
  C8. After a cycle, a category of which at least one source succeeded has no
  \<^verbatim>\<open>lastError\<close>, whatever its other sources did; a category of which every source failed
  has the failure message as \<^verbatim>\<open>lastError\<close> and the articles it retained before. A source
  whose three attempts all fail does not succeed and contributes no article. The loading
  flag is down again.
\<close>

theorem category_error_only_when_all_fail:
  "((\<exists>f\<in>set (category_feeds c). feed_succeeds env f) \<longrightarrow>
      lastError (rawArticles (fetchAllFeeds env s) c) = None)
   \<and> ((\<forall>f\<in>set (category_feeds c). \<not> feed_succeeds env f) \<longrightarrow>
      lastError (rawArticles (fetchAllFeeds env s) c)
        = Some ''Failed to fetch articles from any source for this category''
      \<and> articles (rawArticles (fetchAllFeeds env s) c) = articles (rawArticles s c))
   \<and> ((\<forall>k\<in>{1, 2, 3}. \<exists>e. parseURL env (feed_url f) k = Inl e) \<longrightarrow>
      \<not> feed_succeeds env f \<and> feed_articles env f = [])
   \<and> isLoading (rawArticles (fetchAllFeeds env s) c) = False"
proof (intro conjI impI)
  assume "\<exists>f\<in>set (category_feeds c). feed_succeeds env f"
  then show "lastError (rawArticles (fetchAllFeeds env s) c) = None"
    by (simp add: fetchAllFeeds_rawArticles update_category_success)
next
  assume a: "\<forall>f\<in>set (category_feeds c). \<not> feed_succeeds env f"
  then show "lastError (rawArticles (fetchAllFeeds env s) c)
        = Some ''Failed to fetch articles from any source for this category''"
    by (simp add: fetchAllFeeds_rawArticles update_category_failure FETCH_FAILED_def)
  from a show "articles (rawArticles (fetchAllFeeds env s) c) = articles (rawArticles s c)"
    by (simp add: fetchAllFeeds_rawArticles update_category_failure)
next
  assume "\<forall>k\<in>{1, 2, 3}. \<exists>e. parseURL env (feed_url f) k = Inl e"
  then show "\<not> feed_succeeds env f" "feed_articles env f = []"
    using exhausted_retries [of env f] by simp_all
next
  show "isLoading (rawArticles (fetchAllFeeds env s) c) = False"
    by (simp add: fetchAllFeeds_rawArticles update_category_def Let_def)
qed

theorem category_error_only_when_all_fail_witness:
  "feed_succeeds first_cycle top_stories_feed
   \<and> \<not> feed_succeeds first_cycle india_feed
   \<and> lastError (rawArticles (fetchAllFeeds first_cycle initial_state) Breaking) = None
   \<and> list_all (\<lambda>f. \<not> feed_succeeds outage_cycle f) (category_feeds Breaking)
   \<and> lastError (rawArticles (fetchAllFeeds outage_cycle (fetchAllFeeds first_cycle initial_state))
         Breaking)
       = Some ''Failed to fetch articles from any source for this category''
   \<and> articles (rawArticles (fetchAllFeeds outage_cycle (fetchAllFeeds first_cycle initial_state))
         Breaking)
       = [storm_article 1704103200000]"
proof -
  have f: "feed_succeeds first_cycle top_stories_feed" "\<not> feed_succeeds first_cycle india_feed"
    by (simp_all add: feed_succeeds_def first_cycle_feeds)
  then have h: "\<exists>f\<in>set (category_feeds Breaking). feed_succeeds first_cycle f"
    by (simp add: category_feeds_Breaking)
  have o: "\<forall>f\<in>set (category_feeds Breaking). \<not> feed_succeeds outage_cycle f"
    by (simp add: feed_succeeds_def outage_fails)
  from category_error_only_when_all_fail [of Breaking first_cycle initial_state india_feed] h
  have 1: "lastError (rawArticles (fetchAllFeeds first_cycle initial_state) Breaking) = None"
    by blast
  from category_error_only_when_all_fail
         [of Breaking outage_cycle "fetchAllFeeds first_cycle initial_state" india_feed] o
  have 2: "lastError (rawArticles (fetchAllFeeds outage_cycle
                (fetchAllFeeds first_cycle initial_state)) Breaking)
             = Some ''Failed to fetch articles from any source for this category''
           \<and> articles (rawArticles (fetchAllFeeds outage_cycle
                (fetchAllFeeds first_cycle initial_state)) Breaking)
             = articles (rawArticles (fetchAllFeeds first_cycle initial_state) Breaking)"
    by blast
  from f o 1 2 show ?thesis
    by (simp add: after_first_cycle list_all_iff)
qed

subsection \<open>The request handler\<close>

lemma after_busy_cycle:
  "rawArticles (fetchAllFeeds busy_cycle initial_state) Technology =
     \<lparr> articles =
         [numbered_article ''6'' 5, numbered_article ''5'' 4, numbered_article ''4'' 3,
          numbered_article ''3'' 2, numbered_article ''2'' 1, numbered_article ''1'' 0],
       isLoading = False, lastError = None \<rparr>"
  by (simp add: fetchAllFeeds_rawArticles category_feeds_Technology update_category_def
        busy_feed sort_by_timestamp initial_state_def
        uniqueArticles_def new_Map_def Map_values_def numbered_article_def)

lemma known_property: "rawArticles_property n = Own c \<longleftrightarrow> category_of_name n = Some c"
  by (simp add: rawArticles_property_def split: option.splits)

lemma analyzeArticles_mark:
  "analyzeArticles conv llm (mark_analyzing clk s c) c' = analyzeArticles conv llm s c'"
  by (simp add: analyzeArticles_def mark_analyzing_def)

lemma make_data_counts_ok: "counts_ok (make_data n k an t)"
  by (simp add: counts_ok_def make_data_def)

lemma run_analysis_cache_ok:
  "cache_ok s \<Longrightarrow> cache_ok (fst (run_analysis analyze clk s c n))"
  by (auto simp: run_analysis_def mark_analyzing_def cache_ok_def make_data_counts_ok Let_def
           split: sum.splits js_error.splits if_splits)

lemma handler_core_cache_ok:
  "cache_ok s \<Longrightarrow> cache_ok (fst (handler_core analyze clk s p))"
  by (simp add: handler_core_def Let_def run_analysis_cache_ok
           split: property.splits option.splits)

lemma reachable_cache_ok: "reachable s \<Longrightarrow> cache_ok s"
proof (induction rule: reachable.induct)
  case reachable_initial
  show ?case by (simp add: cache_ok_def initial_state_def)
next
  case (reachable_fetch s env)
  then show ?case by (simp add: cache_ok_def fetchAllFeeds_analysisCache)
next
  case (reachable_request s conv llm clk param)
  then show ?case by (simp add: handler_def handler_core_cache_ok)
qed

lemma run_analysis_200:
  "run_analysis analyze clk s c n = (s', r) \<Longrightarrow> status r = 200 \<Longrightarrow>
     \<exists>d cs. body r = AnalysisResult d cs \<and> counts_ok d"
  by (auto simp: run_analysis_def make_data_counts_ok Let_def
           split: sum.splits js_error.splits if_splits)

lemma handler_core_200:
  assumes "cache_ok s" "handler_core analyze clk s p = (s', r)" "status r = 200"
  shows "\<exists>d cs. body r = AnalysisResult d cs \<and> counts_ok d"
proof (cases "rawArticles_property (toLowerCase p)")
  case (Own c)
  show ?thesis
  proof (cases "data (analysisCache s c)")
    case None
    with assms Own show ?thesis
      by (auto simp: handler_core_def Let_def split: if_splits dest: run_analysis_200)
  next
    case (Some d)
    with assms(1) have "counts_ok d" by (auto simp: cache_ok_def)
    with assms Own Some show ?thesis
      by (auto simp: handler_core_def Let_def split: if_splits dest: run_analysis_200)
  qed
next
  case Inherited
  with assms show ?thesis by (auto simp: handler_core_def Let_def)
next
  case Missing
  with assms show ?thesis by (auto simp: handler_core_def Let_def)
qed

lemma technology_known: "rawArticles_property (toLowerCase ''technology'') = Own Technology"
  by (simp add: rawArticles_property_def category_of_name_def all_categories_def
        lower_char_def)

lemma run_analysis_fresh:
  assumes "\<not> isAnalyzing (analysisCache s c)" "analyze (mark_analyzing clk s c) c = Inr an"
  shows "run_analysis analyze clk s c n =
     (s \<lparr> analysisCache := (analysisCache s)
            (c := \<lparr> cache_timestamp = now_store clk,
                    data = Some (make_data n (length (articles (rawArticles s c))) an
                                   (now_updated clk)),
                    isAnalyzing = False, analysisStartTime = StartNull \<rparr>) \<rparr>,
      \<lparr> status = 200,
        body = AnalysisResult (make_data n (length (articles (rawArticles s c))) an
                                 (now_updated clk)) JustAnalyzed \<rparr>)"
  using assms by (simp add: run_analysis_def Let_def mark_analyzing_def)

lemma run_analysis_throws:
  assumes "\<not> isAnalyzing (analysisCache s c)" "analyze (mark_analyzing clk s c) c = Inl (Error m)"
  shows "run_analysis analyze clk s c n =
     (s \<lparr> analysisCache := (analysisCache s)
            (c := (analysisCache s c) \<lparr> isAnalyzing := False, analysisStartTime := StartNull \<rparr>) \<rparr>,
      \<lparr> status = 500, body = InternalError m n \<rparr>)"
  using assms by (simp add: run_analysis_def Let_def mark_analyzing_def)

lemma handler_core_stale:
  assumes "rawArticles_property (toLowerCase p) = Own c"
    and "\<not> isLoading (rawArticles s c)" "\<not> truthy (lastError (rawArticles s c))"
    and "articles (rawArticles s c) \<noteq> []"
    and "data (analysisCache s c) = None
         \<or> CACHE_DURATION \<le> now_check clk - cache_timestamp (analysisCache s c)"
  shows "handler_core analyze clk s p = run_analysis analyze clk s c (toLowerCase p)"
  using assms by (auto simp: handler_core_def Let_def split: option.splits)

lemma handler_core_cached:
  assumes "rawArticles_property (toLowerCase p) = Own c"
    and "\<not> isLoading (rawArticles s c)" "\<not> truthy (lastError (rawArticles s c))"
    and "articles (rawArticles s c) \<noteq> []"
    and "data (analysisCache s c) = Some d"
    and "now_check clk - cache_timestamp (analysisCache s c) < CACHE_DURATION"
  shows "handler_core analyze clk s p =
     (s, \<lparr> status = 200,
           body = AnalysisResult d
             (FromCache ((now_check clk - cache_timestamp (analysisCache s c)) div 1000)
                ((CACHE_DURATION - (now_check clk - cache_timestamp (analysisCache s c)))
                   div 1000)) \<rparr>)"
  using assms by (simp add: handler_core_def Let_def)

lemma annotate_all_map:
  "map Inr (annotate_all llm as) = map (analyzeSentiment llm) as"
  by (induction as) (simp_all add: analyzeSentiment_def split: sum.splits)

lemma handler_fresh:
  assumes "rawArticles_property (toLowerCase p) = Own c"
    and "\<not> isLoading (rawArticles s c)" "\<not> truthy (lastError (rawArticles s c))"
    and "articles (rawArticles s c) \<noteq> []"
    and "data (analysisCache s c) = None
         \<or> CACHE_DURATION \<le> now_check clk - cache_timestamp (analysisCache s c)"
    and "\<not> isAnalyzing (analysisCache s c)"
    and "partition_articles conv (annotate_all llm (articles (rawArticles s c))) = Inr b"
    and "d = \<lparr> d_category = toLowerCase p,
               d_summary =
                 \<lparr> total_articles = length (articles (rawArticles s c)),
                   analyzed_articles =
                     length (positive b) + length (negative b) + length (neutral b),
                   positive_count = length (positive b),
                   negative_count = length (negative b),
                   neutral_count = length (neutral b) \<rparr>,
               d_articles = b,
               reader_suggestions = [],
               last_updated = now_updated clk \<rparr>"
  shows "handler conv llm clk s p =
     (s \<lparr> analysisCache := (analysisCache s)
            (c := \<lparr> cache_timestamp = now_store clk, data = Some d,
                    isAnalyzing = False, analysisStartTime = StartNull \<rparr>) \<rparr>,
      \<lparr> status = 200, body = AnalysisResult d JustAnalyzed \<rparr>)"
proof -
  define an where "an = \<lparr> positive = positive b, negative = negative b, neutral = neutral b,
                          suggestions = ([] :: string list) \<rparr>"
  have "analyzeArticles conv llm s c =
       (case partition_articles conv (annotate_all llm (articles (rawArticles s c))) of
          Inl e \<Rightarrow> Inl e
        | Inr b \<Rightarrow> Inr \<lparr> positive = positive b, negative = negative b, neutral = neutral b,
                         suggestions = [] \<rparr>)"
    using assms(4) by (rule analyzeArticles_nonempty)
  then have a: "analyzeArticles conv llm (mark_analyzing clk s c) c = Inr an"
    unfolding analyzeArticles_mark an_def assms(7) by simp
  have m: "make_data (toLowerCase p) (length (articles (rawArticles s c))) an (now_updated clk) = d"
    by (simp add: make_data_def an_def assms(8))
  have "handler conv llm clk s p = run_analysis (analyzeArticles conv llm) clk s c (toLowerCase p)"
    unfolding handler_def using assms(1-5) by (rule handler_core_stale)
  also have "\<dots> = (s \<lparr> analysisCache := (analysisCache s)
            (c := \<lparr> cache_timestamp = now_store clk,
                    data = Some (make_data (toLowerCase p) (length (articles (rawArticles s c)))
                                   an (now_updated clk)),
                    isAnalyzing = False, analysisStartTime = StartNull \<rparr>) \<rparr>,
      \<lparr> status = 200,
        body = AnalysisResult (make_data (toLowerCase p) (length (articles (rawArticles s c)))
                                 an (now_updated clk)) JustAnalyzed \<rparr>)"
    using assms(6) a by (rule run_analysis_fresh)
  finally show ?thesis
    unfolding m .
qed

lemma handler_throws:
  assumes "rawArticles_property (toLowerCase p) = Own c"
    and "\<not> isLoading (rawArticles s c)" "\<not> truthy (lastError (rawArticles s c))"
    and "articles (rawArticles s c) \<noteq> []"
    and "data (analysisCache s c) = None
         \<or> CACHE_DURATION \<le> now_check clk - cache_timestamp (analysisCache s c)"
    and "\<not> isAnalyzing (analysisCache s c)"
    and "partition_articles conv (annotate_all llm (articles (rawArticles s c))) = Inl (Error m)"
  shows "handler conv llm clk s p =
     (s \<lparr> analysisCache := (analysisCache s)
            (c := (analysisCache s c) \<lparr> isAnalyzing := False, analysisStartTime := StartNull \<rparr>) \<rparr>,
      \<lparr> status = 500, body = InternalError m (toLowerCase p) \<rparr>)"
proof -
  have "analyzeArticles conv llm s c =
       (case partition_articles conv (annotate_all llm (articles (rawArticles s c))) of
          Inl e \<Rightarrow> Inl e
        | Inr b \<Rightarrow> Inr \<lparr> positive = positive b, negative = negative b, neutral = neutral b,
                         suggestions = [] \<rparr>)"
    using assms(4) by (rule analyzeArticles_nonempty)
  then have a: "analyzeArticles conv llm (mark_analyzing clk s c) c = Inl (Error m)"
    unfolding analyzeArticles_mark assms(7) by simp
  have "handler conv llm clk s p = run_analysis (analyzeArticles conv llm) clk s c (toLowerCase p)"
    unfolding handler_def using assms(1-5) by (rule handler_core_stale)
  also have "\<dots> = (s \<lparr> analysisCache := (analysisCache s)
            (c := (analysisCache s c) \<lparr> isAnalyzing := False, analysisStartTime := StartNull \<rparr>) \<rparr>,
      \<lparr> status = 500, body = InternalError m (toLowerCase p) \<rparr>)"
    using assms(6) a by (rule run_analysis_throws)
  finally show ?thesis .
qed

lemma busy_request:
  "\<exists>s' d. handler no_conversion sample_llm sample_clock
            (fetchAllFeeds busy_cycle initial_state) ''technology''
          = (s', \<lparr> status = 200, body = AnalysisResult d JustAnalyzed \<rparr>)
        \<and> total_articles (d_summary d) = 6 \<and> analyzed_articles (d_summary d) = 5
        \<and> length (annotate_all sample_llm
             (articles (rawArticles (fetchAllFeeds busy_cycle initial_state) Technology))) = 6"
proof -
  define s0 where "s0 = fetchAllFeeds busy_cycle initial_state"
  define xs where "xs = annotate_all sample_llm (articles (rawArticles s0 Technology))"
  define b where "b =
     \<lparr> positive =
         take 5 (sort_key (\<lambda>a. - score_value no_conversion a)
                   (filter (\<lambda>a. numeric no_conversion a
                                \<and> 3 / 10 < score_value no_conversion a) xs)),
       negative =
         take 5 (sort_key (score_value no_conversion)
                   (filter (\<lambda>a. numeric no_conversion a
                                \<and> score_value no_conversion a < - (3 / 10)) xs)),
       neutral =
         take 5 (filter (\<lambda>a. numeric no_conversion a
                              \<and> - (3 / 10) \<le> score_value no_conversion a
                              \<and> score_value no_conversion a \<le> 3 / 10) xs) \<rparr>"
  define d where "d =
     \<lparr> d_category = toLowerCase ''technology'',
       d_summary =
         \<lparr> total_articles = length (articles (rawArticles s0 Technology)),
           analyzed_articles = length (positive b) + length (negative b) + length (neutral b),
           positive_count = length (positive b),
           negative_count = length (negative b),
           neutral_count = length (neutral b) \<rparr>,
       d_articles = b,
       reader_suggestions = [],
       last_updated = now_updated sample_clock \<rparr>"
  have raw: "rawArticles s0 Technology =
     \<lparr> articles =
         [numbered_article ''6'' 5, numbered_article ''5'' 4, numbered_article ''4'' 3,
          numbered_article ''3'' 2, numbered_article ''2'' 1, numbered_article ''1'' 0],
       isLoading = False, lastError = None \<rparr>"
    by (simp add: s0_def after_busy_cycle)
  have cache: "analysisCache s0 Technology =
     \<lparr> cache_timestamp = 0, data = None, isAnalyzing = False,
       analysisStartTime = StartUndefined \<rparr>"
    by (simp add: s0_def fetchAllFeeds_analysisCache initial_state_def)
  have n: "length xs = 6"
    by (simp add: xs_def raw sample_annotation)
  have sc: "\<forall>a\<in>set xs. sentiment_score a = JNum (4 / 5)"
    by (simp add: xs_def raw sample_annotation)
  then have cv: "\<forall>a\<in>set xs. \<not> unconvertible (sentiment_score a)"
    by simp
  from sc have v: "\<forall>a\<in>set xs. numeric no_conversion a \<and> score_value no_conversion a = 4 / 5"
    by (simp add: numeric_def score_value_def score_number_def score_def)
  have part: "partition_articles no_conversion xs = Inr b"
    unfolding b_def using cv by (rule partition_returns)
  from v have "filter (\<lambda>a. numeric no_conversion a
                                \<and> 3 / 10 < score_value no_conversion a) xs = xs"
    by (auto simp: filter_id_conv)
  then have p: "length (positive b) = 5"
    by (simp add: b_def n)
  from v have "filter (\<lambda>a. numeric no_conversion a
                                \<and> score_value no_conversion a < - (3 / 10)) xs = []"
    by (auto simp: filter_empty_conv)
  then have m: "negative b = []"
    by (simp add: b_def)
  from v have "filter (\<lambda>a. numeric no_conversion a
                              \<and> - (3 / 10) \<le> score_value no_conversion a
                              \<and> score_value no_conversion a \<le> 3 / 10) xs = []"
    by (auto simp: filter_empty_conv)
  then have z: "neutral b = []"
    by (simp add: b_def)
  have pre: "\<not> isLoading (rawArticles s0 Technology)"
    "\<not> truthy (lastError (rawArticles s0 Technology))"
    "articles (rawArticles s0 Technology) \<noteq> []"
    "data (analysisCache s0 Technology) = None
       \<or> CACHE_DURATION \<le> now_check sample_clock - cache_timestamp (analysisCache s0 Technology)"
    "\<not> isAnalyzing (analysisCache s0 Technology)"
    by (simp_all add: raw cache truthy_def)
  have h: "handler no_conversion sample_llm sample_clock s0 ''technology'' =
     (s0 \<lparr> analysisCache := (analysisCache s0)
            (Technology := \<lparr> cache_timestamp = now_store sample_clock, data = Some d,
                    isAnalyzing = False, analysisStartTime = StartNull \<rparr>) \<rparr>,
      \<lparr> status = 200, body = AnalysisResult d JustAnalyzed \<rparr>)"
    using technology_known pre part [unfolded xs_def] d_def by (rule handler_fresh)
  have t: "total_articles (d_summary d) = 6"
    by (simp add: d_def raw)
  have c: "analyzed_articles (d_summary d) = 5"
    by (simp add: d_def p m z)
  from h t c n show ?thesis
    unfolding s0_def [symmetric] xs_def [symmetric] by blast
qed

lemma breaking_known: "rawArticles_property (toLowerCase ''breaking'') = Own Breaking"
  by (simp add: rawArticles_property_def category_of_name_def all_categories_def
        lower_char_def)

lemma Technology_known: "rawArticles_property (toLowerCase ''Technology'') = Own Technology"
  by (simp add: rawArticles_property_def category_of_name_def all_categories_def
        lower_char_def)

lemma handler_case_insensitive:
  "toLowerCase p = toLowerCase q \<Longrightarrow> handler conv llm clk s p = handler conv llm clk s q"
  by (simp add: handler_def handler_core_def)

lemma handler_core_fetch_error:
  assumes "rawArticles_property (toLowerCase p) = Own c" "\<not> isLoading (rawArticles s c)"
    and "lastError (rawArticles s c) = Some m" "m \<noteq> []"
  shows "handler_core analyze clk s p = (s, \<lparr> status = 500, body = FetchError m (toLowerCase p) \<rparr>)"
  using assms by (simp add: handler_core_def Let_def truthy_def)

lemma run_analysis_no_fetch_error: "body (snd (run_analysis analyze clk s c n)) \<noteq> FetchError m k"
  by (simp add: run_analysis_def Let_def split: sum.splits js_error.splits)

lemma handler_core_fetch_error_only:
  assumes "body (snd (handler_core analyze clk s p)) = FetchError m n"
  shows "\<exists>c. rawArticles_property (toLowerCase p) = Own c \<and> \<not> isLoading (rawArticles s c)
             \<and> lastError (rawArticles s c) = Some m \<and> m \<noteq> []"
proof (cases "rawArticles_property (toLowerCase p)")
  case (Own c)
  with assms show ?thesis
    by (auto simp: handler_core_def Let_def truthy_def run_analysis_no_fetch_error
             split: if_splits option.splits)
next
  case Inherited
  with assms show ?thesis by (simp add: handler_core_def Let_def)
next
  case Missing
  with assms show ?thesis by (simp add: handler_core_def Let_def)
qed

text \<open>
  C1 (as amended). On a known category that is not loading, the handler answers 500 with
  the stored \<^verbatim>\<open>lastError\<close> message whenever that message is set (and not empty), whether the
  category retains articles or not; and it gives that answer in no other case.
\<close>

theorem fetch_error_response:
  "(rawArticles_property (toLowerCase p) = Own c \<and> \<not> isLoading (rawArticles s c)
      \<and> lastError (rawArticles s c) = Some m \<and> m \<noteq> [] \<longrightarrow>
      handler conv llm clk s p = (s, \<lparr> status = 500, body = FetchError m (toLowerCase p) \<rparr>))
   \<and> (body (snd (handler conv llm clk s p)) = FetchError m' n \<longrightarrow>
      (\<exists>c'. rawArticles_property (toLowerCase p) = Own c' \<and> \<not> isLoading (rawArticles s c')
            \<and> lastError (rawArticles s c') = Some m' \<and> m' \<noteq> []))"
proof (intro conjI impI)
  assume "rawArticles_property (toLowerCase p) = Own c \<and> \<not> isLoading (rawArticles s c)
      \<and> lastError (rawArticles s c) = Some m \<and> m \<noteq> []"
  then have a: "rawArticles_property (toLowerCase p) = Own c" "\<not> isLoading (rawArticles s c)"
    "lastError (rawArticles s c) = Some m" "m \<noteq> []"
    by simp_all
  show "handler conv llm clk s p = (s, \<lparr> status = 500, body = FetchError m (toLowerCase p) \<rparr>)"
    unfolding handler_def using a by (rule handler_core_fetch_error)
next
  assume "body (snd (handler conv llm clk s p)) = FetchError m' n"
  then show "\<exists>c'. rawArticles_property (toLowerCase p) = Own c' \<and> \<not> isLoading (rawArticles s c')
            \<and> lastError (rawArticles s c') = Some m' \<and> m' \<noteq> []"
    unfolding handler_def by (rule handler_core_fetch_error_only)
qed

lemma outage_state_Breaking:
  "rawArticles outage_state Breaking =
     \<lparr> articles = [storm_article 1704103200000], isLoading = False,
       lastError = Some ''Failed to fetch articles from any source for this category'' \<rparr>"
  by (simp add: outage_state_def after_outage)

theorem fetch_error_response_witness:
  "rawArticles_property (toLowerCase ''breaking'') = Own Breaking
   \<and> \<not> isLoading (rawArticles outage_state Breaking)
   \<and> lastError (rawArticles outage_state Breaking)
       = Some ''Failed to fetch articles from any source for this category''
   \<and> handler no_conversion sample_llm sample_clock outage_state ''breaking'' =
       (outage_state,
        \<lparr> status = 500,
          body = FetchError ''Failed to fetch articles from any source for this category''
                   ''breaking'' \<rparr>)"
proof -
  have l: "toLowerCase ''breaking'' = ''breaking''"
    by (simp add: lower_char_def)
  have nl: "\<not> isLoading (rawArticles outage_state Breaking)"
    by (simp add: outage_state_Breaking)
  have le: "lastError (rawArticles outage_state Breaking)
       = Some ''Failed to fetch articles from any source for this category''"
    by (simp add: outage_state_Breaking)
  have ne: "''Failed to fetch articles from any source for this category'' \<noteq> []"
    by simp
  from fetch_error_response
         [of "''breaking''" Breaking outage_state
             "''Failed to fetch articles from any source for this category''"
             no_conversion sample_llm sample_clock]
  have "rawArticles_property (toLowerCase ''breaking'') = Own Breaking
      \<and> \<not> isLoading (rawArticles outage_state Breaking)
      \<and> lastError (rawArticles outage_state Breaking)
          = Some ''Failed to fetch articles from any source for this category''
      \<and> ''Failed to fetch articles from any source for this category'' \<noteq> [] \<longrightarrow>
      handler no_conversion sample_llm sample_clock outage_state ''breaking'' =
        (outage_state,
         \<lparr> status = 500,
           body = FetchError ''Failed to fetch articles from any source for this category''
                    (toLowerCase ''breaking'') \<rparr>)"
    by (rule conjunct1)
  with breaking_known nl le ne
  have "handler no_conversion sample_llm sample_clock outage_state ''breaking'' =
        (outage_state,
         \<lparr> status = 500,
           body = FetchError ''Failed to fetch articles from any source for this category''
                    (toLowerCase ''breaking'') \<rparr>)"
    by blast
  with breaking_known nl le show ?thesis
    unfolding l by blast
qed

text \<open>
  C1 as stated fails in a state the server reaches: a cycle that fetched an article,
  then a cycle in which every source failed. The category retains the article, and the
  request is answered with the stored error all the same.
\<close>

theorem stored_error_hides_articles_counterexample:
  "reachable outage_state
   \<and> articles (rawArticles outage_state Breaking) = [storm_article 1704103200000]
   \<and> lastError (rawArticles outage_state Breaking)
       = Some ''Failed to fetch articles from any source for this category''
   \<and> handler no_conversion sample_llm sample_clock outage_state ''breaking'' =
       (outage_state,
        \<lparr> status = 500,
          body = FetchError ''Failed to fetch articles from any source for this category''
                   ''breaking'' \<rparr>)"
proof -
  have r: "reachable outage_state"
    unfolding outage_state_def by (intro reachable_fetch reachable_initial)
  have l: "toLowerCase ''breaking'' = ''breaking''"
    by (simp add: lower_char_def)
  have "handler_core (analyzeArticles no_conversion sample_llm) sample_clock outage_state
          ''breaking'' =
       (outage_state,
        \<lparr> status = 500,
          body = FetchError ''Failed to fetch articles from any source for this category''
                   (toLowerCase ''breaking'') \<rparr>)"
    by (rule handler_core_fetch_error [OF breaking_known]) (simp_all add: outage_state_Breaking)
  then have h: "handler no_conversion sample_llm sample_clock outage_state ''breaking'' =
       (outage_state,
        \<lparr> status = 500,
          body = FetchError ''Failed to fetch articles from any source for this category''
                   ''breaking'' \<rparr>)"
    unfolding handler_def l .
  have a: "articles (rawArticles outage_state Breaking) = [storm_article 1704103200000]"
    by (simp add: outage_state_Breaking)
  have e: "lastError (rawArticles outage_state Breaking)
       = Some ''Failed to fetch articles from any source for this category''"
    by (simp add: outage_state_Breaking)
  from r a e h show ?thesis by blast
qed


text \<open>
  C5 (as amended). For a request on a known category that is not loading, has no stored
  fetch error and retains at least one article, with \<open>xs\<close> the annotations of the retained
  articles, in their order: cached data younger than five minutes is returned as it is,
  marked as from the cache, with its age and the time left in whole seconds. With no
  cached data, or data at least five minutes old, and no analysis in progress: when every
  score in \<open>xs\<close> can be made a primitive value, the answer is 200 with the data written
  out below (the name in lower case, the number of retained articles, the three buckets
  of C4 and their lengths, no suggestions, the time of the update), marked as just
  analysed, and the same data is stored with the new timestamp, the flag down; when some
  score cannot, the answer is 500 with the message of the TypeError, nothing is stored,
  the timestamp stays, and the flag is down.
\<close>

theorem cache_freshness:
  assumes "rawArticles_property (toLowerCase p) = Own c"
    and "\<not> isLoading (rawArticles s c)" "\<not> truthy (lastError (rawArticles s c))"
    and "articles (rawArticles s c) \<noteq> []"
    and "xs = annotate_all llm (articles (rawArticles s c))"
  shows "(data (analysisCache s c) = Some d
          \<and> now_check clk - cache_timestamp (analysisCache s c) < 5 * 60 * 1000 \<longrightarrow>
            handler conv llm clk s p =
              (s, \<lparr> status = 200,
                    body = AnalysisResult d
                      (FromCache ((now_check clk - cache_timestamp (analysisCache s c)) div 1000)
                         ((5 * 60 * 1000 - (now_check clk - cache_timestamp (analysisCache s c)))
                            div 1000)) \<rparr>))
       \<and> ((data (analysisCache s c) = None
            \<or> 5 * 60 * 1000 \<le> now_check clk - cache_timestamp (analysisCache s c))
          \<and> \<not> isAnalyzing (analysisCache s c)
          \<and> (\<forall>a\<in>set xs. \<not> unconvertible (sentiment_score a)) \<longrightarrow>
            (\<exists>b d'.
               b = \<lparr> positive =
                       take 5 (sort_key (\<lambda>a. - score_value conv a)
                                 (filter (\<lambda>a. numeric conv a \<and> 3 / 10 < score_value conv a) xs)),
                     negative =
                       take 5 (sort_key (score_value conv)
                                 (filter (\<lambda>a. numeric conv a
                                              \<and> score_value conv a < - (3 / 10)) xs)),
                     neutral =
                       take 5 (filter (\<lambda>a. numeric conv a \<and> - (3 / 10) \<le> score_value conv a
                                            \<and> score_value conv a \<le> 3 / 10) xs) \<rparr>
             \<and> d' = \<lparr> d_category = toLowerCase p,
                      d_summary =
                        \<lparr> total_articles = length (articles (rawArticles s c)),
                          analyzed_articles =
                            length (positive b) + length (negative b) + length (neutral b),
                          positive_count = length (positive b),
                          negative_count = length (negative b),
                          neutral_count = length (neutral b) \<rparr>,
                      d_articles = b,
                      reader_suggestions = [],
                      last_updated = now_updated clk \<rparr>
             \<and> handler conv llm clk s p =
                 (s \<lparr> analysisCache := (analysisCache s)
                        (c := \<lparr> cache_timestamp = now_store clk, data = Some d',
                                isAnalyzing = False, analysisStartTime = StartNull \<rparr>) \<rparr>,
                  \<lparr> status = 200, body = AnalysisResult d' JustAnalyzed \<rparr>)))
       \<and> ((data (analysisCache s c) = None
            \<or> 5 * 60 * 1000 \<le> now_check clk - cache_timestamp (analysisCache s c))
          \<and> \<not> isAnalyzing (analysisCache s c)
          \<and> (\<exists>a\<in>set xs. unconvertible (sentiment_score a)) \<longrightarrow>
            handler conv llm clk s p =
              (s \<lparr> analysisCache := (analysisCache s)
                     (c := (analysisCache s c)
                             \<lparr> isAnalyzing := False, analysisStartTime := StartNull \<rparr>) \<rparr>,
               \<lparr> status = 500,
                 body = InternalError ''Cannot convert object to primitive value''
                          (toLowerCase p) \<rparr>))
       \<and> map Inr xs = map (analyzeSentiment llm) (articles (rawArticles s c))"
proof (intro conjI impI)
  assume "data (analysisCache s c) = Some d
          \<and> now_check clk - cache_timestamp (analysisCache s c) < 5 * 60 * 1000"
  then have "data (analysisCache s c) = Some d"
    "now_check clk - cache_timestamp (analysisCache s c) < CACHE_DURATION"
    by (simp_all add: CACHE_DURATION_def)
  with assms(1-4)
  have "handler_core (analyzeArticles conv llm) clk s p =
     (s, \<lparr> status = 200,
           body = AnalysisResult d
             (FromCache ((now_check clk - cache_timestamp (analysisCache s c)) div 1000)
                ((CACHE_DURATION - (now_check clk - cache_timestamp (analysisCache s c)))
                   div 1000)) \<rparr>)"
    by (rule handler_core_cached)
  then show "handler conv llm clk s p =
              (s, \<lparr> status = 200,
                    body = AnalysisResult d
                      (FromCache ((now_check clk - cache_timestamp (analysisCache s c)) div 1000)
                         ((5 * 60 * 1000 - (now_check clk - cache_timestamp (analysisCache s c)))
                            div 1000)) \<rparr>)"
    by (simp add: handler_def CACHE_DURATION_def)
next
  assume a: "(data (analysisCache s c) = None
            \<or> 5 * 60 * 1000 \<le> now_check clk - cache_timestamp (analysisCache s c))
          \<and> \<not> isAnalyzing (analysisCache s c)
          \<and> (\<forall>a\<in>set xs. \<not> unconvertible (sentiment_score a))"
  then have st: "data (analysisCache s c) = None
         \<or> CACHE_DURATION \<le> now_check clk - cache_timestamp (analysisCache s c)"
    and na: "\<not> isAnalyzing (analysisCache s c)"
    by (simp_all add: CACHE_DURATION_def)
  from a have cv: "\<forall>a\<in>set xs. \<not> unconvertible (sentiment_score a)"
    by blast
  define b where "b =
     \<lparr> positive =
         take 5 (sort_key (\<lambda>a. - score_value conv a)
                   (filter (\<lambda>a. numeric conv a \<and> 3 / 10 < score_value conv a) xs)),
       negative =
         take 5 (sort_key (score_value conv)
                   (filter (\<lambda>a. numeric conv a \<and> score_value conv a < - (3 / 10)) xs)),
       neutral =
         take 5 (filter (\<lambda>a. numeric conv a \<and> - (3 / 10) \<le> score_value conv a
                              \<and> score_value conv a \<le> 3 / 10) xs) \<rparr>"
  define d' where "d' =
     \<lparr> d_category = toLowerCase p,
       d_summary =
         \<lparr> total_articles = length (articles (rawArticles s c)),
           analyzed_articles = length (positive b) + length (negative b) + length (neutral b),
           positive_count = length (positive b),
           negative_count = length (negative b),
           neutral_count = length (neutral b) \<rparr>,
       d_articles = b,
       reader_suggestions = [],
       last_updated = now_updated clk \<rparr>"
  have part: "partition_articles conv xs = Inr b"
    unfolding b_def using cv by (rule partition_returns)
  have "handler conv llm clk s p =
                 (s \<lparr> analysisCache := (analysisCache s)
                        (c := \<lparr> cache_timestamp = now_store clk, data = Some d',
                                isAnalyzing = False, analysisStartTime = StartNull \<rparr>) \<rparr>,
                  \<lparr> status = 200, body = AnalysisResult d' JustAnalyzed \<rparr>)"
    using assms(1-4) st na part [unfolded assms(5)] d'_def by (rule handler_fresh)
  with b_def d'_def
  show "\<exists>b d'.
               b = \<lparr> positive =
                       take 5 (sort_key (\<lambda>a. - score_value conv a)
                                 (filter (\<lambda>a. numeric conv a \<and> 3 / 10 < score_value conv a) xs)),
                     negative =
                       take 5 (sort_key (score_value conv)
                                 (filter (\<lambda>a. numeric conv a
                                              \<and> score_value conv a < - (3 / 10)) xs)),
                     neutral =
                       take 5 (filter (\<lambda>a. numeric conv a \<and> - (3 / 10) \<le> score_value conv a
                                            \<and> score_value conv a \<le> 3 / 10) xs) \<rparr>
             \<and> d' = \<lparr> d_category = toLowerCase p,
                      d_summary =
                        \<lparr> total_articles = length (articles (rawArticles s c)),
                          analyzed_articles =
                            length (positive b) + length (negative b) + length (neutral b),
                          positive_count = length (positive b),
                          negative_count = length (negative b),
                          neutral_count = length (neutral b) \<rparr>,
                      d_articles = b,
                      reader_suggestions = [],
                      last_updated = now_updated clk \<rparr>
             \<and> handler conv llm clk s p =
                 (s \<lparr> analysisCache := (analysisCache s)
                        (c := \<lparr> cache_timestamp = now_store clk, data = Some d',
                                isAnalyzing = False, analysisStartTime = StartNull \<rparr>) \<rparr>,
                  \<lparr> status = 200, body = AnalysisResult d' JustAnalyzed \<rparr>)"
    by blast
next
  assume a: "(data (analysisCache s c) = None
            \<or> 5 * 60 * 1000 \<le> now_check clk - cache_timestamp (analysisCache s c))
          \<and> \<not> isAnalyzing (analysisCache s c)
          \<and> (\<exists>a\<in>set xs. unconvertible (sentiment_score a))"
  then have st: "data (analysisCache s c) = None
         \<or> CACHE_DURATION \<le> now_check clk - cache_timestamp (analysisCache s c)"
    and na: "\<not> isAnalyzing (analysisCache s c)"
    by (simp_all add: CACHE_DURATION_def)
  from a have "\<exists>a\<in>set xs. unconvertible (sentiment_score a)"
    by blast
  then have "partition_articles conv xs = Inl NOT_PRIMITIVE"
    by (rule partition_throws)
  then have part: "partition_articles conv (annotate_all llm (articles (rawArticles s c)))
      = Inl (Error ''Cannot convert object to primitive value'')"
    unfolding assms(5) NOT_PRIMITIVE_def .
  show "handler conv llm clk s p =
              (s \<lparr> analysisCache := (analysisCache s)
                     (c := (analysisCache s c)
                             \<lparr> isAnalyzing := False, analysisStartTime := StartNull \<rparr>) \<rparr>,
               \<lparr> status = 500,
                 body = InternalError ''Cannot convert object to primitive value''
                          (toLowerCase p) \<rparr>)"
    using assms(1-4) st na part by (rule handler_throws)
next
  show "map Inr xs = map (analyzeSentiment llm) (articles (rawArticles s c))"
    unfolding assms(5) by (rule annotate_all_map)
qed

lemma sample_after_Technology:
  "rawArticles sample_after Technology =
     \<lparr> articles = [sample_article], isLoading = False, lastError = None \<rparr>"
  "analysisCache sample_after Technology =
     \<lparr> cache_timestamp = 1704110004000, data = Some sample_data, isAnalyzing = False,
       analysisStartTime = StartNull \<rparr>"
  by (simp_all add: sample_after_def sample_state_def initial_state_def)

lemma lower_Technology: "toLowerCase ''Technology'' = ''technology''"
  by (simp add: lower_char_def)

lemma lower_technology: "toLowerCase ''technology'' = ''technology''"
  by (simp add: lower_char_def)

lemma sample_annotations:
  "annotate_all sample_llm (articles (rawArticles sample_state Technology)) = [sample_annotated]"
  by (simp add: sample_state_Technology sample_annotation sample_annotated_def sample_article_def)

lemma broken_annotations:
  "annotate_all broken_llm (articles (rawArticles sample_state Technology)) =
     [\<lparr> a_title = Some ''Chip sales rise'', a_url = Some ''https://example.org/chips'',
        a_source = Some ''Example News'', a_timestamp = 1700000000000,
        summary = JStr ''Chips are up.'', overall_sentiment = JStr ''positive'',
        sentiment_score = JObj [(''toString'', JNum 0)], bias_level = JUndefined,
        manipulative_score = JUndefined,
        a_positive = JUndefined, a_negative = JUndefined \<rparr>]"
  by (simp add: sample_state_Technology broken_annotation sample_article_def)

theorem cache_freshness_witness:
  "rawArticles_property (toLowerCase ''Technology'') = Own Technology
   \<and> articles (rawArticles sample_state Technology) = [sample_article]
   \<and> data (analysisCache sample_state Technology) = None
   \<and> annotate_all sample_llm (articles (rawArticles sample_state Technology))
       = [sample_annotated]
   \<and> sentiment_score sample_annotated = JNum (4 / 5)
   \<and> handler no_conversion sample_llm sample_clock sample_state ''Technology'' =
       (sample_after, \<lparr> status = 200, body = AnalysisResult sample_data JustAnalyzed \<rparr>)
   \<and> data (analysisCache sample_after Technology) = Some sample_data
   \<and> now_check later_clock - cache_timestamp (analysisCache sample_after Technology) = 60000
   \<and> handler no_conversion sample_llm later_clock sample_after ''technology'' =
       (sample_after, \<lparr> status = 200, body = AnalysisResult sample_data (FromCache 60 240) \<rparr>)
   \<and> annotate_all broken_llm (articles (rawArticles sample_state Technology)) =
       [\<lparr> a_title = Some ''Chip sales rise'', a_url = Some ''https://example.org/chips'',
          a_source = Some ''Example News'', a_timestamp = 1700000000000,
          summary = JStr ''Chips are up.'', overall_sentiment = JStr ''positive'',
          sentiment_score = JObj [(''toString'', JNum 0)], bias_level = JUndefined,
          manipulative_score = JUndefined,
          a_positive = JUndefined, a_negative = JUndefined \<rparr>]
   \<and> handler no_conversion broken_llm sample_clock sample_state ''technology'' =
       (sample_state \<lparr> analysisCache := (analysisCache sample_state)
          (Technology := \<lparr> cache_timestamp = 0, data = None, isAnalyzing = False,
                           analysisStartTime = StartNull \<rparr>) \<rparr>,
        \<lparr> status = 500,
          body = InternalError ''Cannot convert object to primitive value'' ''technology'' \<rparr>)"
proof -
  have pre: "\<not> isLoading (rawArticles sample_state Technology)"
    "\<not> truthy (lastError (rawArticles sample_state Technology))"
    "articles (rawArticles sample_state Technology) \<noteq> []"
    by (simp_all add: sample_state_Technology truthy_def)
  have st: "data (analysisCache sample_state Technology) = None
            \<or> 5 * 60 * 1000 \<le> now_check sample_clock
                 - cache_timestamp (analysisCache sample_state Technology)"
    "\<not> isAnalyzing (analysisCache sample_state Technology)"
    by (simp_all add: sample_state_Technology)
  have sc: "sentiment_score sample_annotated = JNum (4 / 5)"
    by (simp add: sample_annotated_def)
  have f: "handler no_conversion sample_llm sample_clock sample_state ''Technology'' =
     (sample_after, \<lparr> status = 200, body = AnalysisResult sample_data JustAnalyzed \<rparr>)"
  proof -
    have cv: "\<forall>a\<in>set [sample_annotated]. \<not> unconvertible (sentiment_score a)"
      by (simp add: sc)
    from cache_freshness
           [where d = undefined and clk = sample_clock and conv = no_conversion,
            OF Technology_known pre sample_annotations [symmetric]]
         st cv
    obtain b d' where
      b: "b = \<lparr> positive =
                       take 5 (sort_key (\<lambda>a. - score_value no_conversion a)
                                 (filter (\<lambda>a. numeric no_conversion a
                                              \<and> 3 / 10 < score_value no_conversion a)
                                    [sample_annotated])),
                     negative =
                       take 5 (sort_key (score_value no_conversion)
                                 (filter (\<lambda>a. numeric no_conversion a
                                              \<and> score_value no_conversion a < - (3 / 10))
                                    [sample_annotated])),
                     neutral =
                       take 5 (filter (\<lambda>a. numeric no_conversion a
                                            \<and> - (3 / 10) \<le> score_value no_conversion a
                                            \<and> score_value no_conversion a \<le> 3 / 10)
                                 [sample_annotated]) \<rparr>"
      and d: "d' = \<lparr> d_category = toLowerCase ''Technology'',
                      d_summary =
                        \<lparr> total_articles = length (articles (rawArticles sample_state Technology)),
                          analyzed_articles =
                            length (positive b) + length (negative b) + length (neutral b),
                          positive_count = length (positive b),
                          negative_count = length (negative b),
                          neutral_count = length (neutral b) \<rparr>,
                      d_articles = b,
                      reader_suggestions = [],
                      last_updated = now_updated sample_clock \<rparr>"
      and h: "handler no_conversion sample_llm sample_clock sample_state ''Technology'' =
                 (sample_state \<lparr> analysisCache := (analysisCache sample_state)
                        (Technology := \<lparr> cache_timestamp = now_store sample_clock,
                                data = Some d',
                                isAnalyzing = False, analysisStartTime = StartNull \<rparr>) \<rparr>,
                  \<lparr> status = 200, body = AnalysisResult d' JustAnalyzed \<rparr>)"
      by blast
    have b': "b = \<lparr> positive = [sample_annotated], negative = [], neutral = [] \<rparr>"
      unfolding b by (simp add: numeric_def score_value_def score_number_def score_def sc)
    have "d' = sample_data"
      unfolding d b' sample_data_def lower_Technology
      by (simp add: sample_state_Technology sample_clock_def)
    moreover have "now_store sample_clock = 1704110004000"
      by (simp add: sample_clock_def)
    ultimately show ?thesis
      using h by (simp only: sample_after_def)
  qed
  have c: "data (analysisCache sample_after Technology) = Some sample_data"
    "now_check later_clock - cache_timestamp (analysisCache sample_after Technology) = 60000"
    by (simp_all add: sample_after_Technology later_clock_def)
  have g: "handler no_conversion sample_llm later_clock sample_after ''technology'' =
     (sample_after, \<lparr> status = 200, body = AnalysisResult sample_data (FromCache 60 240) \<rparr>)"
  proof -
    have pre': "\<not> isLoading (rawArticles sample_after Technology)"
      "\<not> truthy (lastError (rawArticles sample_after Technology))"
      "articles (rawArticles sample_after Technology) \<noteq> []"
      by (simp_all add: sample_after_Technology truthy_def)
    have c': "data (analysisCache sample_after Technology) = Some sample_data
          \<and> now_check later_clock - cache_timestamp (analysisCache sample_after Technology)
              < 5 * 60 * 1000"
      by (simp add: sample_after_Technology later_clock_def)
    from cache_freshness
           [where d = sample_data and clk = later_clock and conv = no_conversion
              and llm = sample_llm,
            OF technology_known pre' refl] c'
    have "handler no_conversion sample_llm later_clock sample_after ''technology'' =
              (sample_after, \<lparr> status = 200,
                    body = AnalysisResult sample_data
                      (FromCache ((now_check later_clock
                                    - cache_timestamp (analysisCache sample_after Technology)) div 1000)
                         ((5 * 60 * 1000 - (now_check later_clock
                                    - cache_timestamp (analysisCache sample_after Technology)))
                            div 1000)) \<rparr>)"
      by blast
    then show ?thesis
      by (simp add: sample_after_Technology later_clock_def)
  qed
  have k: "handler no_conversion broken_llm sample_clock sample_state ''technology'' =
       (sample_state \<lparr> analysisCache := (analysisCache sample_state)
          (Technology := \<lparr> cache_timestamp = 0, data = None, isAnalyzing = False,
                           analysisStartTime = StartNull \<rparr>) \<rparr>,
        \<lparr> status = 500,
          body = InternalError ''Cannot convert object to primitive value'' ''technology'' \<rparr>)"
  proof -
    have u: "\<exists>a\<in>set (annotate_all broken_llm (articles (rawArticles sample_state Technology))).
               unconvertible (sentiment_score a)"
      unfolding broken_annotations by simp
    from cache_freshness
           [where d = undefined and clk = sample_clock and conv = no_conversion
              and llm = broken_llm,
            OF technology_known pre refl]
         st u
    have "handler no_conversion broken_llm sample_clock sample_state ''technology'' =
              (sample_state \<lparr> analysisCache := (analysisCache sample_state)
                     (Technology := (analysisCache sample_state Technology)
                             \<lparr> isAnalyzing := False, analysisStartTime := StartNull \<rparr>) \<rparr>,
               \<lparr> status = 500,
                 body = InternalError ''Cannot convert object to primitive value''
                          (toLowerCase ''technology'') \<rparr>)"
      by blast
    then show ?thesis
      unfolding lower_technology sample_state_Technology by simp
  qed
  have r: "articles (rawArticles sample_state Technology) = [sample_article]"
    "data (analysisCache sample_state Technology) = None"
    by (simp_all add: sample_state_Technology)
  from Technology_known r sample_annotations sc f c g broken_annotations k
  show ?thesis
    by blast
qed

text \<open>
  C5 as stated fails for a reply whose score is an object with a \<^verbatim>\<open>toString\<close> entry, which
  the annotator copies: on a known category that is not loading, has no fetch error, one
  retained article, no cached data and no analysis in progress, the answer is 500 and no
  data is stored.
\<close>

theorem broken_score_answers_500_counterexample:
  "rawArticles_property (toLowerCase ''technology'') = Own Technology
   \<and> rawArticles sample_state Technology =
       \<lparr> articles = [sample_article], isLoading = False, lastError = None \<rparr>
   \<and> analysisCache sample_state Technology =
       \<lparr> cache_timestamp = 0, data = None, isAnalyzing = False,
         analysisStartTime = StartUndefined \<rparr>
   \<and> analyzeSentiment broken_llm sample_article =
       Inr \<lparr> a_title = Some ''Chip sales rise'', a_url = Some ''https://example.org/chips'',
             a_source = Some ''Example News'', a_timestamp = 1700000000000,
             summary = JStr ''Chips are up.'', overall_sentiment = JStr ''positive'',
             sentiment_score = JObj [(''toString'', JNum 0)], bias_level = JUndefined,
             manipulative_score = JUndefined,
             a_positive = JUndefined, a_negative = JUndefined \<rparr>
   \<and> status (snd (handler no_conversion broken_llm sample_clock sample_state ''technology''))
       = 500
   \<and> body (snd (handler no_conversion broken_llm sample_clock sample_state ''technology''))
       = InternalError ''Cannot convert object to primitive value'' ''technology''
   \<and> data (analysisCache
        (fst (handler no_conversion broken_llm sample_clock sample_state ''technology''))
        Technology) = None"
proof -
  have pre: "\<not> isLoading (rawArticles sample_state Technology)"
    "\<not> truthy (lastError (rawArticles sample_state Technology))"
    "articles (rawArticles sample_state Technology) \<noteq> []"
    "data (analysisCache sample_state Technology) = None
       \<or> CACHE_DURATION \<le> now_check sample_clock
            - cache_timestamp (analysisCache sample_state Technology)"
    "\<not> isAnalyzing (analysisCache sample_state Technology)"
    by (simp_all add: sample_state_Technology truthy_def)
  have "\<exists>a\<in>set (annotate_all broken_llm (articles (rawArticles sample_state Technology))).
               unconvertible (sentiment_score a)"
    unfolding broken_annotations by simp
  then have "partition_articles no_conversion
               (annotate_all broken_llm (articles (rawArticles sample_state Technology)))
             = Inl NOT_PRIMITIVE"
    by (rule partition_throws)
  then have part: "partition_articles no_conversion
               (annotate_all broken_llm (articles (rawArticles sample_state Technology)))
             = Inl (Error ''Cannot convert object to primitive value'')"
    unfolding NOT_PRIMITIVE_def .
  have h: "handler no_conversion broken_llm sample_clock sample_state ''technology'' =
     (sample_state \<lparr> analysisCache := (analysisCache sample_state)
            (Technology := (analysisCache sample_state Technology)
                 \<lparr> isAnalyzing := False, analysisStartTime := StartNull \<rparr>) \<rparr>,
      \<lparr> status = 500,
        body = InternalError ''Cannot convert object to primitive value''
                 (toLowerCase ''technology'') \<rparr>)"
    using technology_known pre part by (rule handler_throws)
  have a: "analyzeSentiment broken_llm sample_article =
       Inr \<lparr> a_title = Some ''Chip sales rise'', a_url = Some ''https://example.org/chips'',
             a_source = Some ''Example News'', a_timestamp = 1700000000000,
             summary = JStr ''Chips are up.'', overall_sentiment = JStr ''positive'',
             sentiment_score = JObj [(''toString'', JNum 0)], bias_level = JUndefined,
             manipulative_score = JUndefined,
             a_positive = JUndefined, a_negative = JUndefined \<rparr>"
    by (simp add: broken_annotation sample_article_def)
  have 1: "status (snd (handler no_conversion broken_llm sample_clock sample_state ''technology''))
       = 500"
    unfolding h by simp
  have 2: "body (snd (handler no_conversion broken_llm sample_clock sample_state ''technology''))
       = InternalError ''Cannot convert object to primitive value'' ''technology''"
    unfolding h lower_technology by simp
  have 3: "data (analysisCache
        (fst (handler no_conversion broken_llm sample_clock sample_state ''technology''))
        Technology) = None"
    unfolding h by (simp add: sample_state_Technology)
  from technology_known sample_state_Technology a 1 2 3 show ?thesis
    by blast
qed

text \<open>
  C6. When the handler has raised the in-progress flag and the analysis step throws, it
  answers 500 with the error's message, and in the state it leaves the flag is down and
  the start time is \<^verbatim>\<open>null\<close>; the cached data and timestamp of the category, the other
  categories and the raw articles are as before. The statement is about an arbitrary
  analysis step; \<^verbatim>\<open>analyzeArticles\<close> is one that throws when a score cannot be made a
  primitive value.
\<close>

theorem failed_analysis_clears_flag:
  assumes "rawArticles_property (toLowerCase p) = Own c"
    and "\<not> isLoading (rawArticles s c)" "\<not> truthy (lastError (rawArticles s c))"
    and "articles (rawArticles s c) \<noteq> []"
    and "data (analysisCache s c) = None
         \<or> 5 * 60 * 1000 \<le> now_check clk - cache_timestamp (analysisCache s c)"
    and "\<not> isAnalyzing (analysisCache s c)"
    and "analyze (mark_analyzing clk s c) c = Inl (Error m)"
  shows "isAnalyzing (analysisCache (mark_analyzing clk s c) c)
       \<and> snd (handler_core analyze clk s p)
           = \<lparr> status = 500, body = InternalError m (toLowerCase p) \<rparr>
       \<and> \<not> isAnalyzing (analysisCache (fst (handler_core analyze clk s p)) c)
       \<and> analysisStartTime (analysisCache (fst (handler_core analyze clk s p)) c) = StartNull
       \<and> data (analysisCache (fst (handler_core analyze clk s p)) c) = data (analysisCache s c)
       \<and> cache_timestamp (analysisCache (fst (handler_core analyze clk s p)) c)
           = cache_timestamp (analysisCache s c)
       \<and> (\<forall>c'. c' \<noteq> c \<longrightarrow>
             analysisCache (fst (handler_core analyze clk s p)) c' = analysisCache s c')
       \<and> rawArticles (fst (handler_core analyze clk s p)) = rawArticles s"
proof -
  from assms(5) have st: "data (analysisCache s c) = None
         \<or> CACHE_DURATION \<le> now_check clk - cache_timestamp (analysisCache s c)"
    by (simp add: CACHE_DURATION_def)
  have "handler_core analyze clk s p = run_analysis analyze clk s c (toLowerCase p)"
    using assms(1-4) st by (rule handler_core_stale)
  also have "\<dots> =
     (s \<lparr> analysisCache := (analysisCache s)
            (c := (analysisCache s c) \<lparr> isAnalyzing := False, analysisStartTime := StartNull \<rparr>) \<rparr>,
      \<lparr> status = 500, body = InternalError m (toLowerCase p) \<rparr>)"
    using assms(6,7) by (rule run_analysis_throws)
  finally have h: "handler_core analyze clk s p =
     (s \<lparr> analysisCache := (analysisCache s)
            (c := (analysisCache s c) \<lparr> isAnalyzing := False, analysisStartTime := StartNull \<rparr>) \<rparr>,
      \<lparr> status = 500, body = InternalError m (toLowerCase p) \<rparr>)" .
  have "isAnalyzing (analysisCache (mark_analyzing clk s c) c)"
    by (simp add: mark_analyzing_def)
  then show ?thesis
    unfolding h by simp
qed

theorem failed_analysis_clears_flag_witness:
  "failing_analysis (mark_analyzing sample_clock sample_state Technology) Technology
     = Inl (Error ''JavaScript heap out of memory'')
   \<and> isAnalyzing (analysisCache (mark_analyzing sample_clock sample_state Technology) Technology)
   \<and> snd (handler_core failing_analysis sample_clock sample_state ''technology'')
       = \<lparr> status = 500, body = InternalError ''JavaScript heap out of memory'' ''technology'' \<rparr>
   \<and> \<not> isAnalyzing (analysisCache
         (fst (handler_core failing_analysis sample_clock sample_state ''technology'')) Technology)
   \<and> analysisStartTime (analysisCache
         (fst (handler_core failing_analysis sample_clock sample_state ''technology'')) Technology)
       = StartNull"
proof -
  have pre: "\<not> isLoading (rawArticles sample_state Technology)"
    "\<not> truthy (lastError (rawArticles sample_state Technology))"
    "articles (rawArticles sample_state Technology) \<noteq> []"
    "data (analysisCache sample_state Technology) = None
       \<or> 5 * 60 * 1000 \<le> now_check sample_clock
            - cache_timestamp (analysisCache sample_state Technology)"
    "\<not> isAnalyzing (analysisCache sample_state Technology)"
    by (simp_all add: sample_state_Technology truthy_def)
  have t: "failing_analysis (mark_analyzing sample_clock sample_state Technology) Technology
     = Inl (Error ''JavaScript heap out of memory'')"
    by (simp add: failing_analysis_def)
  from failed_analysis_clears_flag
         [where analyze = failing_analysis and clk = sample_clock, OF technology_known pre t] t
  show ?thesis
    unfolding lower_technology by blast
qed

text \<open>
  C9. In every state the server reaches, a 200 answer carries a summary whose three counts
  are the lengths of the three lists next to it, and whose \<^verbatim>\<open>analyzed_articles\<close> is their
  sum. And the sum can fall short: with six retained articles that all score 0.8, five are
  listed, fewer than were annotated and fewer than \<^verbatim>\<open>total_articles\<close>.
\<close>

theorem summary_counts_match_lists:
  "(reachable s \<and> handler conv llm clk s p = (s', r) \<and> status r = 200 \<longrightarrow>
      (\<exists>d cs. body r = AnalysisResult d cs
         \<and> positive_count (d_summary d) = length (positive (d_articles d))
         \<and> negative_count (d_summary d) = length (negative (d_articles d))
         \<and> neutral_count (d_summary d) = length (neutral (d_articles d))
         \<and> analyzed_articles (d_summary d) =
             positive_count (d_summary d) + negative_count (d_summary d)
               + neutral_count (d_summary d)))
   \<and> (\<exists>s0 s1 d. reachable s0
         \<and> handler no_conversion sample_llm sample_clock s0 ''technology''
             = (s1, \<lparr> status = 200, body = AnalysisResult d JustAnalyzed \<rparr>)
         \<and> analyzed_articles (d_summary d) < total_articles (d_summary d)
         \<and> analyzed_articles (d_summary d)
             < length (annotate_all sample_llm (articles (rawArticles s0 Technology))))"
proof (intro conjI impI)
  assume a: "reachable s \<and> handler conv llm clk s p = (s', r) \<and> status r = 200"
  then have "cache_ok s" by (simp add: reachable_cache_ok)
  moreover from a have "handler_core (analyzeArticles conv llm) clk s p = (s', r)"
    by (simp add: handler_def)
  moreover from a have "status r = 200" by simp
  ultimately have "\<exists>d cs. body r = AnalysisResult d cs \<and> counts_ok d"
    by (rule handler_core_200)
  then show "\<exists>d cs. body r = AnalysisResult d cs
         \<and> positive_count (d_summary d) = length (positive (d_articles d))
         \<and> negative_count (d_summary d) = length (negative (d_articles d))
         \<and> neutral_count (d_summary d) = length (neutral (d_articles d))
         \<and> analyzed_articles (d_summary d) =
             positive_count (d_summary d) + negative_count (d_summary d)
               + neutral_count (d_summary d)"
    by (auto simp: counts_ok_def)
next
  have r: "reachable (fetchAllFeeds busy_cycle initial_state)"
    by (intro reachable_fetch reachable_initial)
  from busy_request obtain s1 d where
    "handler no_conversion sample_llm sample_clock
            (fetchAllFeeds busy_cycle initial_state) ''technology''
          = (s1, \<lparr> status = 200, body = AnalysisResult d JustAnalyzed \<rparr>)"
    "total_articles (d_summary d) = 6" "analyzed_articles (d_summary d) = 5"
    "length (annotate_all sample_llm
             (articles (rawArticles (fetchAllFeeds busy_cycle initial_state) Technology))) = 6"
    by blast
  with r show "\<exists>s0 s1 d. reachable s0
         \<and> handler no_conversion sample_llm sample_clock s0 ''technology''
             = (s1, \<lparr> status = 200, body = AnalysisResult d JustAnalyzed \<rparr>)
         \<and> analyzed_articles (d_summary d) < total_articles (d_summary d)
         \<and> analyzed_articles (d_summary d)
             < length (annotate_all sample_llm (articles (rawArticles s0 Technology)))"
    by (intro exI [of _ "fetchAllFeeds busy_cycle initial_state"] exI [of _ s1] exI [of _ d]) simp
qed

theorem summary_counts_match_lists_witness:
  "reachable (fetchAllFeeds busy_cycle initial_state)
   \<and> status (snd (handler no_conversion sample_llm sample_clock
                    (fetchAllFeeds busy_cycle initial_state) ''technology'')) = 200
   \<and> (\<exists>d cs. body (snd (handler no_conversion sample_llm sample_clock
                          (fetchAllFeeds busy_cycle initial_state) ''technology''))
                = AnalysisResult d cs
         \<and> positive_count (d_summary d) = length (positive (d_articles d))
         \<and> negative_count (d_summary d) = length (negative (d_articles d))
         \<and> neutral_count (d_summary d) = length (neutral (d_articles d))
         \<and> analyzed_articles (d_summary d) =
             positive_count (d_summary d) + negative_count (d_summary d)
               + neutral_count (d_summary d))"
proof -
  have r: "reachable (fetchAllFeeds busy_cycle initial_state)"
    by (intro reachable_fetch reachable_initial)
  from busy_request
  have st: "status (snd (handler no_conversion sample_llm sample_clock
                    (fetchAllFeeds busy_cycle initial_state) ''technology'')) = 200"
    by auto
  have pr: "handler no_conversion sample_llm sample_clock
              (fetchAllFeeds busy_cycle initial_state) ''technology''
            = (fst (handler no_conversion sample_llm sample_clock
                     (fetchAllFeeds busy_cycle initial_state) ''technology''),
               snd (handler no_conversion sample_llm sample_clock
                     (fetchAllFeeds busy_cycle initial_state) ''technology''))"
    by simp
  from summary_counts_match_lists
         [of "fetchAllFeeds busy_cycle initial_state" no_conversion sample_llm sample_clock
             "''technology''"
             "fst (handler no_conversion sample_llm sample_clock
                     (fetchAllFeeds busy_cycle initial_state) ''technology'')"
             "snd (handler no_conversion sample_llm sample_clock
                     (fetchAllFeeds busy_cycle initial_state) ''technology'')"]
    r st pr
  show ?thesis by blast
qed

lemma lower_samples:
  "toLowerCase ''constructor'' = ''constructor''"
  "toLowerCase ''__proto__'' = ''__proto__''"
  "toLowerCase ''sports'' = ''sports''"
  "toLowerCase ''TECHnology'' = ''technology''"
  by (simp_all add: lower_char_def)

lemma property_samples:
  "rawArticles_property ''constructor'' = Inherited"
  "rawArticles_property ''__proto__'' = Inherited"
  "rawArticles_property ''sports'' = Missing"
  by (simp_all add: rawArticles_property_def category_of_name_def all_categories_def
        Object_prototype_keys_def)

text \<open>
  C10 (the code at the failing input). The names \<^verbatim>\<open>constructor\<close> and \<^verbatim>\<open>__proto__\<close> are no
  categories, yet \<^verbatim>\<open>in\<close> finds them on the prototype of \<^verbatim>\<open>rawArticles\<close>: the answer is
  the 404 for a category without articles, not the 404 that lists the categories, which
  an unknown name such as \<^verbatim>\<open>sports\<close> gets. Spellings that differ in case are treated alike.
\<close>

theorem inherited_property_passes_for_category:
  "handler conv llm clk s ''constructor''
     = (s, \<lparr> status = 404, body = NoArticles ''constructor'' \<rparr>)
   \<and> handler conv llm clk s ''__proto__''
     = (s, \<lparr> status = 404, body = NoArticles ''__proto__'' \<rparr>)
   \<and> handler conv llm clk s ''sports''
     = (s, \<lparr> status = 404,
            body = CategoryNotFound
                     [''breaking'', ''technology'', ''business'', ''science'', ''health''] \<rparr>)
   \<and> handler conv llm clk s ''TECHnology'' = handler conv llm clk s ''technology''"
proof (intro conjI)
  show "handler conv llm clk s ''TECHnology'' = handler conv llm clk s ''technology''"
    by (rule handler_case_insensitive) (simp add: lower_char_def)
next
  show "handler conv llm clk s ''constructor''
     = (s, \<lparr> status = 404, body = NoArticles ''constructor'' \<rparr>)"
    unfolding handler_def handler_core_def Let_def lower_samples property_samples by simp
next
  show "handler conv llm clk s ''__proto__''
     = (s, \<lparr> status = 404, body = NoArticles ''__proto__'' \<rparr>)"
    unfolding handler_def handler_core_def Let_def lower_samples property_samples by simp
next
  show "handler conv llm clk s ''sports''
     = (s, \<lparr> status = 404,
            body = CategoryNotFound
                     [''breaking'', ''technology'', ''business'', ''science'', ''health''] \<rparr>)"
    unfolding handler_def handler_core_def Let_def lower_samples property_samples
    by (simp add: all_categories_def)
qed

end
